theory Spec2Isabelle
  imports Complex_Main "HOL-Library.Sublist"
begin

section \<open>Exceptions of zerver/forms.py and zerver/views/users.py\<close>

text \<open>
  Every exception the two modules raise (or let through) is a value of \<open>error\<close>; a
  function that may raise returns \<open>error + 'a\<close> with \<open>Inl\<close> for the exception.
  \<open>RateLimitedError\<close> carries \<open>secs_to_freedom\<close>, a Python float that the code only
  passes on. \<open>ExternalError\<close> stands for an exception of a library call that the module
  neither raises itself nor catches.
\<close>

datatype error =
    ValidationError string
  | OverridableValidationError string string
  | IndexError
  | KeyError string
  | TypeError
  | AssertionError
  | RateLimitedError real
  | JsonableError string
  | CannotDeactivateLastUserError bool
  | OrganizationOwnerRequiredError
  | OrganizationAdministratorRequiredError
  | MissingAuthenticationError
  | EmailAlreadyInUseError
  | RealmDoesNotExist
  | ExternalError string

section \<open>Python strings and lists\<close>

text \<open>
  \<open>xs[i]\<close> of Python: a negative index counts from the end, an index out of range
  raises \<open>IndexError\<close>.
\<close>

definition py_getitem :: "'a list \<Rightarrow> int \<Rightarrow> error + 'a" where
  "py_getitem xs i =
     (if 0 \<le> i \<and> i < int (length xs) then Inr (xs ! nat i)
      else if i < 0 \<and> 0 \<le> i + int (length xs) then Inr (xs ! nat (i + int (length xs)))
      else Inl IndexError)"

text \<open>The characters of the class \<open>[a-z0-9-]\<close>.\<close>

definition subdomain_char :: "char \<Rightarrow> bool" where
  "subdomain_char c = (c \<in> set ''abcdefghijklmnopqrstuvwxyz0123456789-'')"

text \<open>
  \<open>re.match(r"^[a-z0-9-]{n,}$", s)\<close> as a truth value. Without \<open>re.MULTILINE\<close>, Python's
  \<open>$\<close> matches at the end of the string and also just before a newline that ends the
  string, so \<open>n\<close> or more characters of the class followed by one line feed match too.
\<close>

definition re_match_subdomain_chars :: "nat \<Rightarrow> string \<Rightarrow> bool" where
  "re_match_subdomain_chars n s =
     ((n \<le> length s \<and> list_all subdomain_char s) \<or>
      (s \<noteq> [] \<and> last s = CHR 0x0A \<and> n \<le> length (butlast s) \<and>
       list_all subdomain_char (butlast s)))"

section \<open>forms.py: check_subdomain_available\<close>

record realm =
  id_realm :: int
  string_id :: string
  deactivated :: bool

text \<open>
  Modelled from the spec: \<open>Realm.SUBDOMAIN_FOR_ROOT_DOMAIN\<close> is declared in
  zerver/models/realms.py, which is not among the sources; the root domain is the realm
  with the empty subdomain. The proofs below that do not need its value do not unfold it.
\<close>

definition SUBDOMAIN_FOR_ROOT_DOMAIN :: string where
  "SUBDOMAIN_FOR_ROOT_DOMAIN = ''''"

datatype error_key = too_short | extremal_dash | bad_character | unavailable | reserved

fun error_strings :: "error_key \<Rightarrow> string" where
  "error_strings too_short = ''Subdomain needs to have length 3 or greater.''"
| "error_strings extremal_dash = ''Subdomain cannot start or end with a '' @ [CHR 0x27, CHR ''-'', CHR 0x27] @ ''.''"
| "error_strings bad_character = ''Subdomain can only have lowercase letters, numbers, and '' @ [CHR 0x27, CHR ''-'', CHR 0x27] @ ''s.''"
| "error_strings unavailable = ''Subdomain is already in use. Please choose a different one.''"
| "error_strings reserved = ''Subdomain reserved. Please choose a different one.''"

text \<open>
  What \<open>check_subdomain_available\<close> reads besides its arguments: the predicate
  \<open>is_reserved_subdomain\<close> (zerver/lib/name_restrictions.py), not among the sources and
  taken as it comes, and the table of realms behind \<open>Realm.objects\<close>.
\<close>

record subdomain_env =
  is_reserved_subdomain :: "string \<Rightarrow> bool"
  realms :: "realm list"

text \<open>
  Modelled from the spec: \<open>is_root_domain_available()\<close> is declared in
  zerver/lib/subdomains.py, which is not among the sources. The spec gives its answer: the
  root domain is available only if no realm already claims it, and the sentinel is accepted
  if and only if no realm currently owns it. So it is a query on the table of realms, the
  one the later \<open>Realm.objects.filter(string_id=subdomain).exists()\<close> of
  \<open>check_subdomain_available\<close> reads: no row has the sentinel as its \<open>string_id\<close>.
\<close>

definition is_root_domain_available :: "subdomain_env \<Rightarrow> bool" where
  "is_root_domain_available env =
     (filter (\<lambda>r. string_id r = SUBDOMAIN_FOR_ROOT_DOMAIN) (realms env) = [])"

text \<open>
  Returning \<open>Inr ()\<close> is the function's plain \<open>return\<close>: the subdomain is accepted.
  \<open>subdomain[0] == "-" or subdomain[-1] == "-"\<close> reads the first character, then (only
  when that is no dash) the last one; either read raises \<open>IndexError\<close> on the empty string.
\<close>

definition check_subdomain_available :: "subdomain_env \<Rightarrow> string \<Rightarrow> bool \<Rightarrow> error + unit" where
  "check_subdomain_available env subdomain allow_reserved_subdomain =
     (if subdomain = SUBDOMAIN_FOR_ROOT_DOMAIN then
        (if is_root_domain_available env then Inr ()
         else Inl (ValidationError (error_strings unavailable)))
      else
        (case py_getitem subdomain 0 of
           Inl e \<Rightarrow> Inl e
         | Inr c0 \<Rightarrow>
            (case (if c0 = CHR ''-'' then Inr True
                   else (case py_getitem subdomain (- 1) of
                           Inl e \<Rightarrow> Inl e
                         | Inr c1 \<Rightarrow> Inr (c1 = CHR ''-''))) of
               Inl e \<Rightarrow> Inl e
             | Inr dash \<Rightarrow>
                if dash then Inl (ValidationError (error_strings extremal_dash))
                else if \<not> re_match_subdomain_chars 0 subdomain then
                  Inl (ValidationError (error_strings bad_character))
                else if length subdomain < 3 then
                  Inl (ValidationError (error_strings too_short))
                else if filter (\<lambda>r. string_id r = subdomain) (realms env) \<noteq> [] then
                  Inl (ValidationError (error_strings unavailable))
                else if is_reserved_subdomain env subdomain \<and> \<not> allow_reserved_subdomain then
                  Inl (OverridableValidationError (error_strings reserved)
                         ''Pass --allow-reserved-subdomain to override'')
                else Inr ())))"

text \<open>
  The candidates of the spec's property: strings matching \<open>^[a-z0-9-]{3,}$\<close> that neither
  start nor end with a dash. The pattern is read as Python reads it (the weaker reading,
  so the stricter one is covered).
\<close>

definition spec_subdomain_candidate :: "string \<Rightarrow> bool" where
  "spec_subdomain_candidate s =
     (re_match_subdomain_chars 3 s \<and> \<not> prefix ''-'' s \<and> \<not> suffix ''-'' s)"

definition registered :: "subdomain_env \<Rightarrow> string \<Rightarrow> bool" where
  "registered env s = (s \<in> string_id ` set (realms env))"

section \<open>forms.py: CaptchaRealmCreationForm.clean_captcha\<close>

text \<open>
  \<open>settings.ALTCHA_HMAC_KEY\<close> is a string or \<open>None\<close>; \<open>not key\<close> holds for \<open>None\<close> and for
  the empty string.
\<close>

record captcha_settings =
  USING_CAPTCHA :: bool
  ALTCHA_HMAC_KEY :: "string option"

text \<open>
  What \<open>orjson.loads\<close> returns: an object (a dict from keys to values of type \<open>'c\<close>) or a
  value of another JSON kind, whose subscript by a string raises \<open>TypeError\<close>.
\<close>

datatype 'c json = JObject "string \<rightharpoonup> 'c" | JOther

text \<open>
  The two library calls, taken as they come. \<open>verify_solution payload key\<close> (package
  altcha, called with \<open>check_expires=True\<close>, so its answer may change as time passes)
  returns the pair \<open>(ok, err)\<close> or raises; \<open>b64_json_loads\<close> is
  \<open>orjson.loads(base64.b64decode(payload))\<close>, which raises on a malformed payload.
\<close>

record 'c captcha_lib =
  verify_solution :: "string \<Rightarrow> string \<Rightarrow> error + (bool \<times> string)"
  b64_json_loads :: "string \<Rightarrow> error + 'c json"

text \<open>
  The state the method reads and writes: the entry \<open>"altcha_challenges"\<close> of the request's
  session (\<open>None\<close> when the key is absent), a list of (identifier, expiry) entries of which
  the code reads component 0, and the lines handed to \<open>logging\<close>.
\<close>

record ('c, 'x) captcha_state =
  altcha_challenges :: "('c \<times> 'x) list option"
  logged :: "string list"

definition session_get_altcha_challenges :: "('c, 'x) captcha_state \<Rightarrow> ('c \<times> 'x) list" where
  "session_get_altcha_challenges st = (case altcha_challenges st of None \<Rightarrow> [] | Some l \<Rightarrow> l)"

definition validation_failed :: error where
  "validation_failed = ValidationError ''Validation failed, please try again.''"

definition log_line :: "string \<Rightarrow> ('c, 'x) captcha_state \<Rightarrow> ('c, 'x) captcha_state" where
  "log_line m st = st\<lparr>logged := logged st @ [m]\<rparr>"

text \<open>
  The \<open>try\<close> block around \<open>verify_solution\<close>: a \<open>forms.ValidationError\<close> goes through as it
  is, every other exception is logged (\<open>logging.exception\<close> writes the exception itself,
  here one fixed line) and replaced by the generic validation error, and so is an answer
  that is not \<open>ok\<close>.
\<close>

definition verify_step ::
  "'c captcha_lib \<Rightarrow> string \<Rightarrow> string \<Rightarrow> ('c, 'x) captcha_state \<Rightarrow>
     error option \<times> ('c, 'x) captcha_state" where
  "verify_step lib payload key st =
     (case verify_solution lib payload key of
        Inr (ok, err) \<Rightarrow>
          if \<not> ok then (Some validation_failed, log_line (''Invalid altcha solution: '' @ err) st)
          else (None, st)
      | Inl (ValidationError m) \<Rightarrow> (Some (ValidationError m), st)
      | Inl e \<Rightarrow> (Some validation_failed, log_line ''exception in verify_solution'' st))"

definition captcha_payload :: "string option \<Rightarrow> string" where
  "captcha_payload captcha = (case captcha of None \<Rightarrow> [] | Some p \<Rightarrow> p)"

text \<open>
  \<open>clean_captcha\<close>: \<open>captcha\<close> is \<open>self.data.get("captcha")\<close>. The result pairs what the
  method returns or raises with the state it leaves.
\<close>

definition clean_captcha ::
  "captcha_settings \<Rightarrow> 'c captcha_lib \<Rightarrow> ('c, 'x) captcha_state \<Rightarrow> string option \<Rightarrow>
     (error + 'c json) \<times> ('c, 'x) captcha_state" where
  "clean_captcha settings lib st captcha =
     (let payload = captcha_payload captcha in
      case (if USING_CAPTCHA settings then ALTCHA_HMAC_KEY settings else None) of
        None \<Rightarrow> (Inl (ValidationError ''Challenges are not enabled.''), st)
      | Some key \<Rightarrow>
          if key = [] then (Inl (ValidationError ''Challenges are not enabled.''), st)
          else
            (case verify_step lib payload key st of
               (Some e, st1) \<Rightarrow> (Inl e, st1)
             | (None, st1) \<Rightarrow>
                 (case b64_json_loads lib payload of
                    Inl e \<Rightarrow> (Inl e, st1)
                  | Inr JOther \<Rightarrow> (Inl TypeError, st1)
                  | Inr (JObject d) \<Rightarrow>
                      (case d ''challenge'' of
                         None \<Rightarrow> (Inl (KeyError ''challenge''), st1)
                       | Some challenge \<Rightarrow>
                           if challenge \<notin> set (map fst (session_get_altcha_challenges st1)) then
                             (Inl validation_failed,
                              log_line ''Expired or replayed altcha solution'' st1)
                           else
                             (Inr (JObject d),
                              st1\<lparr>altcha_challenges :=
                                    Some (filter (\<lambda>e. fst e \<noteq> challenge)
                                            (session_get_altcha_challenges st1))\<rparr>)))))"

text \<open>The identifiers outstanding in a session, and the identifier a payload carries.\<close>

definition outstanding :: "('c, 'x) captcha_state \<Rightarrow> 'c set" where
  "outstanding st = fst ` set (session_get_altcha_challenges st)"

definition challenge_of :: "'c captcha_lib \<Rightarrow> string \<Rightarrow> 'c option" where
  "challenge_of lib payload =
     (case b64_json_loads lib payload of Inr (JObject d) \<Rightarrow> d ''challenge'' | _ \<Rightarrow> None)"

text \<open>
  A sample library for the examples: one payload verifies under the key \<open>hmac-key\<close> and
  decodes to an object whose challenge is \<open>abc\<close>.
\<close>

definition demo_lib :: "string captcha_lib" where
  "demo_lib =
     \<lparr>verify_solution =
        (\<lambda>p k. if p = ''c29sdmVk'' \<and> k = ''hmac-key'' then Inr (True, [])
               else Inr (False, ''bad signature'')),
      b64_json_loads =
        (\<lambda>p. if p = ''c29sdmVk'' then Inr (JObject [''challenge'' \<mapsto> ''abc''])
             else Inl (ExternalError ''JSONDecodeError''))\<rparr>"

section \<open>forms.py: ZulipPasswordResetForm.save\<close>

text \<open>
  Of the request, \<open>save\<close> reads the subdomain (through \<open>get_subdomain\<close>) and
  \<open>META["REMOTE_ADDR"]\<close>.
\<close>

record http_request =
  subdomain_of_request :: string
  REMOTE_ADDR :: string

text \<open>
  The collaborators of \<open>save\<close>, none of them among the sources and all taken as they come:
  \<open>get_realm\<close> (\<open>None\<close> for \<open>Realm.DoesNotExist\<close>), the two predicates of zproject.backends,
  the settings \<open>RATE_LIMITING\<close> and \<open>RATE_LIMITING_RULES["password_reset_form_by_email"]\<close>,
  \<open>RateLimitedObject.rate_limit\<close> (given the object's key and rules, it answers
  \<open>(ratelimited, secs_to_freedom)\<close> and updates the limiter's state \<open>'l\<close>),
  \<open>rate_limit_request_by_ip\<close> (\<open>Some secs\<close> when it raises \<open>RateLimitedError(secs)\<close>) and
  \<open>get_user_by_delivery_email\<close> (\<open>None\<close> for \<open>UserProfile.DoesNotExist\<close>).
\<close>

record ('l, 'u) reset_env =
  get_realm :: "string \<Rightarrow> realm option"
  email_auth_enabled :: "realm \<Rightarrow> bool"
  email_belongs_to_ldap :: "realm \<Rightarrow> string \<Rightarrow> bool"
  RATE_LIMITING :: bool
  password_reset_form_by_email_rules :: "(int \<times> int) list"
  rate_limit :: "string \<Rightarrow> (int \<times> int) list \<Rightarrow> 'l \<Rightarrow> (bool \<times> real) \<times> 'l"
  rate_limit_request_by_ip :: "http_request \<Rightarrow> string \<Rightarrow> 'l \<Rightarrow> real option \<times> 'l"
  get_user_by_delivery_email :: "string \<Rightarrow> realm \<Rightarrow> 'u option"

text \<open>
  The state around \<open>save\<close>: the rate limiter's counters, the calls of
  \<open>do_send_password_reset_email\<close> made so far (address, realm, user or \<open>None\<close>), each of
  which sends one email, and the lines handed to \<open>logging.info\<close>.
\<close>

record ('l, 'u) reset_state =
  limiter :: 'l
  reset_emails :: "(string \<times> realm \<times> 'u option) list"
  info_log :: "string list"

definition log_info :: "string \<Rightarrow> ('l, 'u) reset_state \<Rightarrow> ('l, 'u) reset_state" where
  "log_info m st = st\<lparr>info_log := info_log st @ [m]\<rparr>"

text \<open>
  Modelled from the spec: \<open>do_send_password_reset_email\<close> (zerver/actions/users.py) is not
  among the sources; a call sends one email, to the address and about the account (or
  its absence) it is given.
\<close>

definition do_send_password_reset_email ::
  "string \<Rightarrow> realm \<Rightarrow> 'u option \<Rightarrow> ('l, 'u) reset_state \<Rightarrow> ('l, 'u) reset_state" where
  "do_send_password_reset_email email realm user st =
     st\<lparr>reset_emails := reset_emails st @ [(email, realm, user)]\<rparr>"

text \<open>\<open>RateLimitedPasswordResetByEmail(email).key()\<close>.\<close>

definition RateLimitedPasswordResetByEmail_key :: "string \<Rightarrow> string" where
  "RateLimitedPasswordResetByEmail_key email = ''RateLimitedPasswordResetByEmail:'' @ email"

definition rate_limit_password_reset_form_by_email ::
  "('l, 'u) reset_env \<Rightarrow> string \<Rightarrow> ('l, 'u) reset_state \<Rightarrow> (error + unit) \<times> ('l, 'u) reset_state" where
  "rate_limit_password_reset_form_by_email env email st =
     (case rate_limit env (RateLimitedPasswordResetByEmail_key email)
             (password_reset_form_by_email_rules env) (limiter st) of
        ((ratelimited, secs_to_freedom), l) \<Rightarrow>
          if ratelimited then (Inl (RateLimitedError secs_to_freedom), st\<lparr>limiter := l\<rparr>)
          else (Inr (), st\<lparr>limiter := l\<rparr>))"

text \<open>
  The body of \<open>if settings.RATE_LIMITING:\<close>: the per-email check, then (when that did not
  raise) the per-IP check; a \<open>RateLimitedError\<close> of either is logged and raised again.
\<close>

definition rate_limit_block ::
  "('l, 'u) reset_env \<Rightarrow> http_request \<Rightarrow> string \<Rightarrow> ('l, 'u) reset_state \<Rightarrow>
     (error + unit) \<times> ('l, 'u) reset_state" where
  "rate_limit_block env request email st =
     (case rate_limit_password_reset_form_by_email env email st of
        (Inl e, st1) \<Rightarrow>
          (Inl e, log_info (''Too many password reset attempts for email '' @ email @
                            '' from '' @ REMOTE_ADDR request) st1)
      | (Inr u, st1) \<Rightarrow>
          (case rate_limit_request_by_ip env request ''sends_email_by_ip'' (limiter st1) of
             (Some secs, l) \<Rightarrow>
               (Inl (RateLimitedError secs),
                log_info (''Too many password reset attempts for email '' @ email @
                          '' from '' @ REMOTE_ADDR request) (st1\<lparr>limiter := l\<rparr>))
           | (None, l) \<Rightarrow> (Inr (), st1\<lparr>limiter := l\<rparr>)))"

text \<open>
  \<open>save\<close>: \<open>email\<close> is \<open>self.cleaned_data["email"]\<close>, \<open>request\<close> the optional argument
  (the \<open>assert\<close> fails on \<open>None\<close>). \<open>Inr ()\<close> is the plain return.
\<close>

definition save ::
  "('l, 'u) reset_env \<Rightarrow> string \<Rightarrow> http_request option \<Rightarrow> ('l, 'u) reset_state \<Rightarrow>
     (error + unit) \<times> ('l, 'u) reset_state" where
  "save env email request_opt st =
     (case request_opt of
        None \<Rightarrow> (Inl AssertionError, st)
      | Some request \<Rightarrow>
         (case get_realm env (subdomain_of_request request) of
            None \<Rightarrow> (Inl RealmDoesNotExist, st)
          | Some realm \<Rightarrow>
              if \<not> email_auth_enabled env realm then
                (Inr (), log_info (''Password reset attempted for '' @ email @
                                   '' even though password auth is disabled.'') st)
              else if email_belongs_to_ldap env realm email then
                (Inr (), log_info ''Password reset not allowed for user in LDAP domain'' st)
              else if deactivated realm then
                (Inr (), log_info ''Realm is deactivated'' st)
              else
                (case (if RATE_LIMITING env then rate_limit_block env request email st
                       else (Inr (), st)) of
                   (Inl e, st1) \<Rightarrow> (Inl e, st1)
                 | (Inr u, st1) \<Rightarrow>
                     (Inr (),
                      do_send_password_reset_email email realm
                        (get_user_by_delivery_email env email realm) st1))))"

text \<open>
  The conditions the claim about \<open>save\<close> names. A counter is exceeded when the limiter,
  asked now, answers so; the three early conditions are tested before any limiter is
  asked.
\<close>

definition email_counter_exceeded :: "('l, 'u) reset_env \<Rightarrow> string \<Rightarrow> ('l, 'u) reset_state \<Rightarrow> bool" where
  "email_counter_exceeded env email st =
     fst (fst (rate_limit env (RateLimitedPasswordResetByEmail_key email)
                 (password_reset_form_by_email_rules env) (limiter st)))"

definition ip_counter_exceeded ::
  "('l, 'u) reset_env \<Rightarrow> http_request \<Rightarrow> string \<Rightarrow> ('l, 'u) reset_state \<Rightarrow> bool" where
  "ip_counter_exceeded env request email st =
     (fst (rate_limit_request_by_ip env request ''sends_email_by_ip''
             (limiter (snd (rate_limit_password_reset_form_by_email env email st)))) \<noteq> None)"

definition returns_early :: "('l, 'u) reset_env \<Rightarrow> realm \<Rightarrow> string \<Rightarrow> bool" where
  "returns_early env realm email =
     (\<not> email_auth_enabled env realm \<or> email_belongs_to_ldap env realm email \<or> deactivated realm)"

definition is_rate_limited_error :: "error \<Rightarrow> bool" where
  "is_rate_limited_error e = (case e of RateLimitedError secs \<Rightarrow> True | _ \<Rightarrow> False)"

text \<open>
  A sample deployment for the examples: password authentication is on, nobody is in
  LDAP, no account exists, and the limiter (its state is the number of requests seen)
  lets one request per key through and then asks to wait 30 seconds.
\<close>

definition demo_realm :: realm where
  "demo_realm = \<lparr>id_realm = 2, string_id = ''zulip'', deactivated = False\<rparr>"

definition demo_reset_env :: "(nat, nat) reset_env" where
  "demo_reset_env =
     \<lparr>get_realm = (\<lambda>s. if s = ''zulip'' then Some demo_realm else None),
      email_auth_enabled = (\<lambda>r. True),
      email_belongs_to_ldap = (\<lambda>r e. False),
      RATE_LIMITING = True,
      password_reset_form_by_email_rules = [(3600, 1)],
      rate_limit = (\<lambda>k rules n. ((1 \<le> n, 30), Suc n)),
      rate_limit_request_by_ip = (\<lambda>r d n. (None, n)),
      get_user_by_delivery_email = (\<lambda>e r. None)\<rparr>"

definition demo_request :: http_request where
  "demo_request = \<lparr>subdomain_of_request = ''zulip'', REMOTE_ADDR = ''10.0.0.1''\<rparr>"

section \<open>views/users.py: the data the handlers work on\<close>

text \<open>
  The role of a user: \<open>RoleParamType\<close> is an integer checked to be one of
  \<open>UserProfile.ROLE_TYPES\<close>, whose members (declared in zerver/models/users.py, not among
  the sources) are named here; the code compares roles for equality only.
\<close>

datatype role =
    ROLE_REALM_OWNER
  | ROLE_REALM_ADMINISTRATOR
  | ROLE_MODERATOR
  | ROLE_MEMBER
  | ROLE_GUEST

datatype bot_type =
    DEFAULT_BOT
  | INCOMING_WEBHOOK_BOT
  | OUTGOING_WEBHOOK_BOT
  | EMBEDDED_BOT
  | OTHER_BOT_TYPE int

datatype avatar_source = AVATAR_FROM_GRAVATAR | AVATAR_FROM_USER

record stream =
  id_stream :: int
  name :: string

text \<open>
  A row of \<open>UserProfile\<close>, with the fields the handlers read or pass on. \<open>realm\<close> is the
  row's realm; Django compares model instances by primary key, so \<open>realm=user.realm\<close> in
  a query is equality of \<open>id_realm\<close>.
\<close>

record user_profile =
  id_user :: int
  realm :: realm
  delivery_email :: string
  email :: string
  full_name :: string
  role :: role
  is_bot :: bool
  bot_type :: "bot_type option"
  bot_owner_id :: "int option"
  is_active :: bool
  avatar_source :: avatar_source
  can_change_user_emails :: bool
  can_create_users :: bool
  default_sending_stream :: "stream option"
  default_events_register_stream :: "stream option"
  default_all_public_streams :: "bool option"
  api_key :: string

definition realm_id :: "user_profile \<Rightarrow> int" where
  "realm_id u = id_realm (realm u)"

text \<open>
  Modelled from the spec: the properties \<open>is_realm_owner\<close>, \<open>is_realm_admin\<close> and
  \<open>is_guest\<close> of \<open>UserProfile\<close> are declared outside the sources. The roles are ordered
  privilege levels: the owner role is the highest, and an owner has the administrator's
  privilege too.
\<close>

definition is_realm_owner :: "user_profile \<Rightarrow> bool" where
  "is_realm_owner u = (role u = ROLE_REALM_OWNER)"

definition is_realm_admin :: "user_profile \<Rightarrow> bool" where
  "is_realm_admin u = (role u = ROLE_REALM_OWNER \<or> role u = ROLE_REALM_ADMINISTRATOR)"

definition is_guest :: "user_profile \<Rightarrow> bool" where
  "is_guest u = (role u = ROLE_GUEST)"

text \<open>
  The database as the handlers see it: the table of user profiles, and everything else
  (streams, services, bot configuration, uploaded files, queued events) as a state \<open>'x\<close>
  that only the actions of other modules read and write.
\<close>

record 'x world =
  users :: "user_profile list"
  rest :: 'x

datatype jvalue =
    JNull
  | JBool bool
  | JInt int
  | JString string
  | JDict "(string \<times> string) list"

text \<open>What a handler returns: \<open>json_success(request, data)\<close> or \<open>redirect(url)\<close>.\<close>

datatype response =
    json_success "(string \<times> jvalue) list"
  | redirect string

section \<open>views/users.py: check_last_owner and deactivate_user_own_backend\<close>

text \<open>
  Modelled from the spec: \<open>Realm.get_human_owner_users\<close> is declared outside the sources;
  it answers the realm's active users that hold the owner role and are no bots.
\<close>

definition get_human_owner_users :: "'x world \<Rightarrow> realm \<Rightarrow> user_profile list" where
  "get_human_owner_users w r =
     filter (\<lambda>u. realm_id u = id_realm r \<and> \<not> is_bot u \<and> role u = ROLE_REALM_OWNER \<and> is_active u)
       (users w)"

definition check_last_owner :: "'x world \<Rightarrow> user_profile \<Rightarrow> bool" where
  "check_last_owner w user_profile =
     (let owners = set (get_human_owner_users w (realm user_profile))
      in is_realm_owner user_profile \<and> \<not> is_bot user_profile \<and> card owners = 1)"

text \<open>
  Modelled from the spec: \<open>do_deactivate_user\<close> (zerver/actions/users.py) is not among
  the sources; deactivation is soft, the row stays with its active flag cleared.
\<close>

definition do_deactivate_user :: "user_profile \<Rightarrow> user_profile \<Rightarrow> 'x world \<Rightarrow> 'x world" where
  "do_deactivate_user target acting_user w =
     w\<lparr>users := map (\<lambda>u. if id_user u = id_user target then u\<lparr>is_active := False\<rparr> else u)
                    (users w)\<rparr>"

text \<open>
  \<open>UserProfile.objects.filter(realm=user_profile.realm, is_active=True).count()\<close> is the
  length of the filtered table. The result pairs the response or the exception with the
  database the call leaves.
\<close>

definition deactivate_user_own_backend ::
  "'x world \<Rightarrow> user_profile \<Rightarrow> (error + response) \<times> 'x world" where
  "deactivate_user_own_backend w user_profile =
     (if length (filter (\<lambda>u. realm_id u = realm_id user_profile \<and> is_active u) (users w)) = 1
      then (Inl (CannotDeactivateLastUserError False), w)
      else if is_realm_owner user_profile \<and> check_last_owner w user_profile
      then (Inl (CannotDeactivateLastUserError True), w)
      else (Inr (json_success []), do_deactivate_user user_profile user_profile w))"

text \<open>
  The two situations of the claim, read on the table: the caller is the only active user
  of the realm (the rows of the table being distinct); the caller is the realm's only
  active human owner and the realm has another active user who is no owner.
\<close>

definition sole_active_user :: "'x world \<Rightarrow> user_profile \<Rightarrow> bool" where
  "sole_active_user w caller =
     (distinct (users w) \<and>
      set (filter (\<lambda>u. realm_id u = realm_id caller \<and> is_active u) (users w)) = {caller})"

definition only_human_owner_among_others :: "'x world \<Rightarrow> user_profile \<Rightarrow> bool" where
  "only_human_owner_among_others w caller =
     (set (get_human_owner_users w (realm caller)) = {caller} \<and>
      filter (\<lambda>u. realm_id u = realm_id caller \<and> is_active u \<and> role u \<noteq> ROLE_REALM_OWNER)
        (users w) \<noteq> [])"

text \<open>Sample rows for the examples.\<close>

definition demo_user :: "int \<Rightarrow> string \<Rightarrow> role \<Rightarrow> user_profile" where
  "demo_user i n r =
     \<lparr>id_user = i, realm = demo_realm, delivery_email = n @ ''@zulip.com'',
      email = n @ ''@zulip.com'', full_name = n, role = r, is_bot = False, bot_type = None,
      bot_owner_id = None, is_active = True, avatar_source = AVATAR_FROM_GRAVATAR,
      can_change_user_emails = False, can_create_users = False,
      default_sending_stream = None, default_events_register_stream = None,
      default_all_public_streams = None, api_key = ''key-'' @ n\<rparr>"

section \<open>views/users.py: sequencing and the shared collaborators\<close>

text \<open>
  A step of a handler takes the database and returns what it produced or raised together
  with the database it leaves; \<open>and_then\<close> runs the next step unless the first one raised.
\<close>

definition and_then ::
  "(error + 'a) \<times> 's \<Rightarrow> ('a \<Rightarrow> 's \<Rightarrow> (error + 'b) \<times> 's) \<Rightarrow> (error + 'b) \<times> 's" where
  "and_then m f = (case m of (Inl e, s) \<Rightarrow> (Inl e, s) | (Inr a, s) \<Rightarrow> f a s)"

text \<open>
  \<open>s.strip()\<close>. A Python \<open>str\<close> is a sequence of code points and is held here as its
  UTF-8 bytes; \<open>strip\<close> removes from both ends the code points for which \<open>str.isspace\<close>
  holds: U+0009 to U+000D, U+001C to U+001F, U+0020, U+0085, U+00A0, U+1680, U+2000 to
  U+200A, U+2028, U+2029, U+202F, U+205F and U+3000. \<open>py_whitespace\<close> lists their UTF-8
  encodings. In well-formed UTF-8 a string starts (ends) with one of these byte sequences
  exactly when its first (last) code point is that white space.
\<close>

definition py_whitespace :: "string list" where
  "py_whitespace =
     [[CHR 0x09], [CHR 0x0A], [CHR 0x0B], [CHR 0x0C], [CHR 0x0D],
      [CHR 0x1C], [CHR 0x1D], [CHR 0x1E], [CHR 0x1F], [CHR 0x20],
      [CHR 0xC2, CHR 0x85], [CHR 0xC2, CHR 0xA0],
      [CHR 0xE1, CHR 0x9A, CHR 0x80],
      [CHR 0xE2, CHR 0x80, CHR 0x80], [CHR 0xE2, CHR 0x80, CHR 0x81],
      [CHR 0xE2, CHR 0x80, CHR 0x82], [CHR 0xE2, CHR 0x80, CHR 0x83],
      [CHR 0xE2, CHR 0x80, CHR 0x84], [CHR 0xE2, CHR 0x80, CHR 0x85],
      [CHR 0xE2, CHR 0x80, CHR 0x86], [CHR 0xE2, CHR 0x80, CHR 0x87],
      [CHR 0xE2, CHR 0x80, CHR 0x88], [CHR 0xE2, CHR 0x80, CHR 0x89],
      [CHR 0xE2, CHR 0x80, CHR 0x8A],
      [CHR 0xE2, CHR 0x80, CHR 0xA8], [CHR 0xE2, CHR 0x80, CHR 0xA9],
      [CHR 0xE2, CHR 0x80, CHR 0xAF], [CHR 0xE2, CHR 0x81, CHR 0x9F],
      [CHR 0xE3, CHR 0x80, CHR 0x80]]"

text \<open>
  \<open>strip_leading ws s\<close> removes from the front of \<open>s\<close> the sequences of \<open>ws\<close>, one after
  the other, until \<open>s\<close> starts with none of them.
\<close>

fun strip_leading :: "string list \<Rightarrow> string \<Rightarrow> string" where
  "strip_leading ws [] = []"
| "strip_leading ws (c # s) =
     (case find (\<lambda>w. w \<noteq> [] \<and> prefix w (c # s)) ws of
        None \<Rightarrow> c # s
      | Some w \<Rightarrow> strip_leading ws (drop (length w - 1) s))"

definition py_strip :: "string \<Rightarrow> string" where
  "py_strip s =
     rev (strip_leading (map rev py_whitespace) (rev (strip_leading py_whitespace s)))"

record uploaded_file =
  file_name :: string
  file_size :: "nat option"

text \<open>Of the request, the handlers read \<open>FILES\<close> and \<open>META["QUERY_STRING"]\<close>.\<close>

record view_request =
  FILES :: "uploaded_file list"
  QUERY_STRING :: string

text \<open>
  Collaborators that several handlers call, none of them among the sources, taken as they
  come. An action that changes a row returns the row as the caller's object holds it
  afterwards, with the database it leaves. \<open>upload_avatar_image\<close> writes the file to the
  storage backend, which is part of \<open>rest\<close>, and no row of the user table.
\<close>

record 'x shared_env =
  do_change_user_role ::
    "user_profile \<Rightarrow> role \<Rightarrow> user_profile \<Rightarrow> 'x world \<Rightarrow> user_profile \<times> 'x world"
  access_stream_by_name :: "user_profile \<Rightarrow> string \<Rightarrow> 'x world \<Rightarrow> error + stream"
  check_valid_interface_type :: "int \<Rightarrow> error option"
  upload_avatar_image :: "uploaded_file \<Rightarrow> user_profile \<Rightarrow> 'x \<Rightarrow> 'x"
  avatar_url :: "user_profile \<Rightarrow> bool \<Rightarrow> string option"
  require_member_or_admin :: "user_profile \<Rightarrow> error option"

definition jstring_opt :: "string option \<Rightarrow> jvalue" where
  "jstring_opt v = (case v of None \<Rightarrow> JNull | Some s \<Rightarrow> JString s)"

definition get_stream_name :: "stream option \<Rightarrow> string option" where
  "get_stream_name s = (case s of Some st \<Rightarrow> Some (name st) | None \<Rightarrow> None)"

section \<open>views/users.py: update_user_backend\<close>

datatype profile_value = PVString string | PVList "int list"

record ProfileDataElement =
  id_field :: int
  val :: "profile_value option"

record 'x update_env =
  BILLING_ENABLED :: bool
  check_spare_license_available_for_changing_guest_user_role ::
    "realm \<Rightarrow> 'x world \<Rightarrow> error option"
  check_change_full_name ::
    "user_profile \<Rightarrow> string \<Rightarrow> user_profile \<Rightarrow> 'x world \<Rightarrow> (error + user_profile) \<times> 'x world"
  check_remove_custom_profile_field_value ::
    "user_profile \<Rightarrow> int \<Rightarrow> user_profile \<Rightarrow> 'x world \<Rightarrow> (error + unit) \<times> 'x world"
  validate_user_custom_profile_data ::
    "int \<Rightarrow> (int \<times> profile_value) list \<Rightarrow> user_profile \<Rightarrow> 'x world \<Rightarrow> error option"
  do_update_user_custom_profile_data_if_changed ::
    "user_profile \<Rightarrow> (int \<times> profile_value) list \<Rightarrow> 'x world \<Rightarrow> 'x world"
  validate_email :: "string \<Rightarrow> bool"
  validate_email_not_already_in_realm :: "realm \<Rightarrow> string \<Rightarrow> 'x world \<Rightarrow> string option"
  do_change_user_delivery_email ::
    "user_profile \<Rightarrow> string \<Rightarrow> user_profile \<Rightarrow> 'x world \<Rightarrow> user_profile \<times> 'x world"

text \<open>\<open>not entry.value\<close>: the empty string and the empty list are falsy.\<close>

definition falsy_value :: "profile_value option \<Rightarrow> bool" where
  "falsy_value v = (v = None \<or> v = Some (PVString []) \<or> v = Some (PVList []))"

text \<open>The \<open>for entry in profile_data\<close> loop; \<open>clean\<close> is \<open>clean_profile_data\<close> so far.\<close>

fun profile_data_loop ::
  "'x update_env \<Rightarrow> user_profile \<Rightarrow> user_profile \<Rightarrow> ProfileDataElement list \<Rightarrow>
     (int \<times> profile_value) list \<Rightarrow> 'x world \<Rightarrow> (error + (int \<times> profile_value) list) \<times> 'x world" where
  "profile_data_loop env target user_profile [] clean w = (Inr clean, w)"
| "profile_data_loop env target user_profile (entry # entries) clean w =
     (if falsy_value (val entry) then
        and_then (check_remove_custom_profile_field_value env target (id_field entry) user_profile w)
          (\<lambda>u w1. profile_data_loop env target user_profile entries clean w1)
      else
        profile_data_loop env target user_profile entries
          (clean @ [(id_field entry, case val entry of Some v \<Rightarrow> v | None \<Rightarrow> PVString [])]) w)"

text \<open>The block \<open>if role is not None and target.role != role\<close>.\<close>

definition update_role_block ::
  "'x shared_env \<Rightarrow> 'x update_env \<Rightarrow> user_profile \<Rightarrow> user_profile \<Rightarrow> role option \<Rightarrow> 'x world \<Rightarrow>
     (error + user_profile) \<times> 'x world" where
  "update_role_block sh env user_profile target role' w =
     (case role' of
        None \<Rightarrow> (Inr target, w)
      | Some r \<Rightarrow>
          if role target = r then (Inr target, w)
          else if ROLE_REALM_OWNER \<in> set [r, role target] \<and> \<not> is_realm_owner user_profile then
            (Inl OrganizationOwnerRequiredError, w)
          else if \<not> is_realm_admin user_profile then
            (Inl OrganizationAdministratorRequiredError, w)
          else if role target = ROLE_REALM_OWNER \<and> check_last_owner w target then
            (Inl (JsonableError
               ''The owner permission cannot be removed from the only organization owner.''), w)
          else
            (case (if BILLING_ENABLED env \<and> is_guest target
                   then check_spare_license_available_for_changing_guest_user_role env
                          (realm user_profile) w
                   else None) of
               Some e \<Rightarrow> (Inl e, w)
             | None \<Rightarrow>
                 (case do_change_user_role sh target r user_profile w of
                    (target1, w1) \<Rightarrow> (Inr target1, w1))))"

definition update_full_name_block ::
  "'x update_env \<Rightarrow> user_profile \<Rightarrow> user_profile \<Rightarrow> string option \<Rightarrow> 'x world \<Rightarrow>
     (error + user_profile) \<times> 'x world" where
  "update_full_name_block env user_profile target full_name' w =
     (case full_name' of
        None \<Rightarrow> (Inr target, w)
      | Some n \<Rightarrow>
          if full_name target \<noteq> n \<and> py_strip n \<noteq> [] then
            check_change_full_name env target n user_profile w
          else (Inr target, w))"

definition update_profile_data_block ::
  "'x update_env \<Rightarrow> user_profile \<Rightarrow> user_profile \<Rightarrow> ProfileDataElement list option \<Rightarrow>
     'x world \<Rightarrow> (error + unit) \<times> 'x world" where
  "update_profile_data_block env user_profile target profile_data w =
     (case profile_data of
        None \<Rightarrow> (Inr (), w)
      | Some entries \<Rightarrow>
          and_then (profile_data_loop env target user_profile entries [] w)
            (\<lambda>clean w1.
               case validate_user_custom_profile_data env (id_realm (realm target)) clean
                      user_profile w1 of
                 Some e \<Rightarrow> (Inl e, w1)
               | None \<Rightarrow>
                   (Inr (), do_update_user_custom_profile_data_if_changed env target clean w1)))"

definition update_email_block ::
  "'x update_env \<Rightarrow> user_profile \<Rightarrow> user_profile \<Rightarrow> string option \<Rightarrow> 'x world \<Rightarrow>
     (error + unit) \<times> 'x world" where
  "update_email_block env user_profile target new_email w =
     (case new_email of
        None \<Rightarrow> (Inr (), w)
      | Some e \<Rightarrow>
          if delivery_email target = e then (Inr (), w)
          else if \<not> (can_change_user_emails user_profile \<and> is_realm_admin user_profile) then
            (Inl AssertionError, w)
          else if \<not> validate_email env e then
            (Inl (JsonableError ''Invalid new email address.''), w)
          else
            (case validate_email_not_already_in_realm env (realm user_profile) e w of
               Some message \<Rightarrow> (Inl (JsonableError (''New email value error: '' @ message)), w)
             | None \<Rightarrow>
                 (Inr (), snd (do_change_user_delivery_email env target e user_profile w))))"

text \<open>
  \<open>update_user_backend\<close>. The callers run it inside \<open>transaction.atomic\<close>; the database
  paired with an exception is the one at the \<open>raise\<close>, before the caller rolls back.
\<close>

definition update_user_backend ::
  "'x shared_env \<Rightarrow> 'x update_env \<Rightarrow> user_profile \<Rightarrow> user_profile \<Rightarrow> string option \<Rightarrow>
     string option \<Rightarrow> ProfileDataElement list option \<Rightarrow> role option \<Rightarrow> 'x world \<Rightarrow>
     (error + response) \<times> 'x world" where
  "update_user_backend sh env user_profile target full_name' new_email profile_data role' w =
     (if new_email \<noteq> None \<and>
         (\<not> can_change_user_emails user_profile \<or> \<not> is_realm_admin user_profile) then
        (Inl (JsonableError ''User not authorized to change user emails''), w)
      else
        and_then (update_role_block sh env user_profile target role' w)
          (\<lambda>target1 w1.
             and_then (update_full_name_block env user_profile target1 full_name' w1)
               (\<lambda>target2 w2.
                  and_then (update_profile_data_block env user_profile target2 profile_data w2)
                    (\<lambda>u w3.
                       and_then (update_email_block env user_profile target2 new_email w3)
                         (\<lambda>u w4. (Inr (json_success []), w4))))))"

section \<open>views/users.py: patch_bot_backend\<close>

record 'x patch_env =
  access_bot_by_id :: "user_profile \<Rightarrow> int \<Rightarrow> 'x world \<Rightarrow> error + user_profile"
  check_change_bot_full_name ::
    "user_profile \<Rightarrow> string \<Rightarrow> user_profile \<Rightarrow> 'x world \<Rightarrow> (error + user_profile) \<times> 'x world"
  get_user_profile_by_id_in_realm :: "int \<Rightarrow> realm \<Rightarrow> 'x world \<Rightarrow> user_profile option"
  do_change_bot_owner ::
    "user_profile \<Rightarrow> user_profile \<Rightarrow> user_profile \<Rightarrow> 'x world \<Rightarrow> user_profile \<times> 'x world"
  do_change_default_sending_stream ::
    "user_profile \<Rightarrow> stream option \<Rightarrow> user_profile \<Rightarrow> 'x world \<Rightarrow> user_profile \<times> 'x world"
  do_change_default_events_register_stream ::
    "user_profile \<Rightarrow> stream option \<Rightarrow> user_profile \<Rightarrow> 'x world \<Rightarrow> user_profile \<times> 'x world"
  do_change_default_all_public_streams ::
    "user_profile \<Rightarrow> bool \<Rightarrow> user_profile \<Rightarrow> 'x world \<Rightarrow> user_profile \<times> 'x world"
  do_update_outgoing_webhook_service ::
    "user_profile \<Rightarrow> int \<Rightarrow> string \<Rightarrow> user_profile \<Rightarrow> 'x world \<Rightarrow> 'x world"
  do_update_bot_config_data :: "user_profile \<Rightarrow> (string \<times> string) list \<Rightarrow> 'x world \<Rightarrow> 'x world"
  do_change_avatar_fields ::
    "user_profile \<Rightarrow> avatar_source \<Rightarrow> user_profile \<Rightarrow> 'x world \<Rightarrow> user_profile \<times> 'x world"
  bot_owner_email :: "user_profile \<Rightarrow> 'x world \<Rightarrow> string option"

text \<open>The parameters of \<open>patch_bot_backend\<close> after \<open>bot_id\<close>, with their defaults.\<close>

record patch_params =
  p_bot_owner_id :: "int option"
  p_config_data :: "(string \<times> string) list option"
  p_default_all_public_streams :: "bool option"
  p_default_events_register_stream :: "string option"
  p_default_sending_stream :: "string option"
  p_full_name :: "string option"
  p_role :: "role option"
  p_service_interface :: int
  p_service_payload_url :: "string option"

definition patch_full_name_block ::
  "'x patch_env \<Rightarrow> user_profile \<Rightarrow> user_profile \<Rightarrow> string option \<Rightarrow> 'x world \<Rightarrow>
     (error + user_profile) \<times> 'x world" where
  "patch_full_name_block env user_profile bot' full_name' w =
     (case full_name' of
        None \<Rightarrow> (Inr bot', w)
      | Some n \<Rightarrow> check_change_bot_full_name env bot' n user_profile w)"

text \<open>The block \<open>if role is not None and bot.role != role\<close> (the logic of update_user_backend, duplicated).\<close>

definition patch_role_block ::
  "'x shared_env \<Rightarrow> user_profile \<Rightarrow> user_profile \<Rightarrow> role option \<Rightarrow> 'x world \<Rightarrow>
     (error + user_profile) \<times> 'x world" where
  "patch_role_block sh user_profile bot' role' w =
     (case role' of
        None \<Rightarrow> (Inr bot', w)
      | Some r \<Rightarrow>
          if role bot' = r then (Inr bot', w)
          else if ROLE_REALM_OWNER \<in> set [r, role bot'] \<and> \<not> is_realm_owner user_profile then
            (Inl OrganizationOwnerRequiredError, w)
          else if \<not> is_realm_admin user_profile then
            (Inl OrganizationAdministratorRequiredError, w)
          else
            (case do_change_user_role sh bot' r user_profile w of
               (bot1, w1) \<Rightarrow> (Inr bot1, w1)))"

definition patch_owner_block ::
  "'x patch_env \<Rightarrow> user_profile \<Rightarrow> user_profile \<Rightarrow> int option \<Rightarrow> 'x world \<Rightarrow>
     (error + user_profile) \<times> 'x world" where
  "patch_owner_block env user_profile bot' bot_owner_id' w =
     (case bot_owner_id' of
        None \<Rightarrow> (Inr bot', w)
      | Some oid \<Rightarrow>
          if bot_owner_id bot' = Some oid then (Inr bot', w)
          else
            (case get_user_profile_by_id_in_realm env oid (realm user_profile) w of
               None \<Rightarrow> (Inl (JsonableError ''Failed to change owner, no such user''), w)
             | Some owner \<Rightarrow>
                 if \<not> is_active owner then
                   (Inl (JsonableError ''Failed to change owner, user is deactivated''), w)
                 else if is_bot owner then
                   (Inl (JsonableError
                      (''Failed to change owner, bots can'' @ [CHR 0x27] @ ''t own other bots'')), w)
                 else if bot_owner_id bot' \<noteq> Some (id_user owner) then
                   (case do_change_bot_owner env bot' owner user_profile w of
                      (bot1, w1) \<Rightarrow> (Inr bot1, w1))
                 else (Inr bot', w)))"

text \<open>
  One of the two stream blocks: \<open>change\<close> is the action, \<open>stream_name\<close> the parameter
  (the empty string clears the stream).
\<close>

definition patch_stream_block ::
  "'x shared_env \<Rightarrow>
     (user_profile \<Rightarrow> stream option \<Rightarrow> user_profile \<Rightarrow> 'x world \<Rightarrow> user_profile \<times> 'x world) \<Rightarrow>
     user_profile \<Rightarrow> user_profile \<Rightarrow> string option \<Rightarrow> 'x world \<Rightarrow>
     (error + user_profile) \<times> 'x world" where
  "patch_stream_block sh change user_profile bot' stream_name w =
     (case stream_name of
        None \<Rightarrow> (Inr bot', w)
      | Some n \<Rightarrow>
          if n = [] then
            (case change bot' None user_profile w of (bot1, w1) \<Rightarrow> (Inr bot1, w1))
          else
            (case access_stream_by_name sh user_profile n w of
               Inl e \<Rightarrow> (Inl e, w)
             | Inr s \<Rightarrow>
                 (case change bot' (Some s) user_profile w of (bot1, w1) \<Rightarrow> (Inr bot1, w1))))"

definition patch_settings_block ::
  "'x shared_env \<Rightarrow> 'x patch_env \<Rightarrow> user_profile \<Rightarrow> user_profile \<Rightarrow> patch_params \<Rightarrow> 'x world \<Rightarrow>
     (error + user_profile) \<times> 'x world" where
  "patch_settings_block sh env user_profile bot' p w =
     (case (case p_default_all_public_streams p of
              None \<Rightarrow> (bot', w)
            | Some b \<Rightarrow> do_change_default_all_public_streams env bot' b user_profile w) of
        (bot1, w1) \<Rightarrow>
          (case p_service_payload_url p of
             None \<Rightarrow>
               (Inr bot1,
                case p_config_data p of None \<Rightarrow> w1
                | Some c \<Rightarrow> do_update_bot_config_data env bot1 c w1)
           | Some url \<Rightarrow>
               (case check_valid_interface_type sh (p_service_interface p) of
                  Some e \<Rightarrow> (Inl e, w1)
                | None \<Rightarrow>
                    (let w2 = do_update_outgoing_webhook_service env bot1 (p_service_interface p)
                                url user_profile w1
                     in (Inr bot1,
                         case p_config_data p of None \<Rightarrow> w2
                         | Some c \<Rightarrow> do_update_bot_config_data env bot1 c w2)))))"

definition patch_files_block ::
  "'x shared_env \<Rightarrow> 'x patch_env \<Rightarrow> user_profile \<Rightarrow> user_profile \<Rightarrow> view_request \<Rightarrow> 'x world \<Rightarrow>
     (error + user_profile) \<times> 'x world" where
  "patch_files_block sh env user_profile bot' request w =
     (if length (FILES request) = 0 then (Inr bot', w)
      else if length (FILES request) = 1 then
        (case FILES request of
           user_file # fs \<Rightarrow>
             if file_size user_file = None then (Inl AssertionError, w)
             else
               (case do_change_avatar_fields env bot' AVATAR_FROM_USER user_profile
                       (w\<lparr>rest := upload_avatar_image sh user_file bot' (rest w)\<rparr>) of
                  (bot1, w1) \<Rightarrow> (Inr bot1, w1))
         | [] \<Rightarrow> (Inr bot', w))
      else (Inl (JsonableError ''You may only upload one file at a time''), w))"

definition patch_json_result ::
  "'x shared_env \<Rightarrow> 'x patch_env \<Rightarrow> user_profile \<Rightarrow> patch_params \<Rightarrow> 'x world \<Rightarrow>
     (string \<times> jvalue) list" where
  "patch_json_result sh env bot' p w =
     [(''full_name'', JString (full_name bot')),
      (''avatar_url'', jstring_opt (avatar_url sh bot' False)),
      (''service_interface'', JInt (p_service_interface p)),
      (''service_payload_url'', jstring_opt (p_service_payload_url p)),
      (''config_data'', case p_config_data p of None \<Rightarrow> JNull | Some c \<Rightarrow> JDict c),
      (''default_sending_stream'', jstring_opt (get_stream_name (default_sending_stream bot'))),
      (''default_events_register_stream'',
         jstring_opt (get_stream_name (default_events_register_stream bot'))),
      (''default_all_public_streams'',
         case default_all_public_streams bot' of None \<Rightarrow> JNull | Some b \<Rightarrow> JBool b)]
     @ (case bot_owner_email env bot' w of None \<Rightarrow> [] | Some e \<Rightarrow> [(''bot_owner'', JString e)])"

text \<open>
  \<open>patch_bot_backend\<close>, behind its decorator \<open>require_member_or_admin\<close>. The handler is
  not atomic: a change made before a later \<open>raise\<close> stays in the database returned.
\<close>

definition patch_bot_backend ::
  "'x shared_env \<Rightarrow> 'x patch_env \<Rightarrow> view_request \<Rightarrow> user_profile \<Rightarrow> int \<Rightarrow> patch_params \<Rightarrow>
     'x world \<Rightarrow> (error + response) \<times> 'x world" where
  "patch_bot_backend sh env request user_profile bot_id p w =
     (case require_member_or_admin sh user_profile of
        Some e \<Rightarrow> (Inl e, w)
      | None \<Rightarrow>
          and_then (access_bot_by_id env user_profile bot_id w, w)
            (\<lambda>bot' w0.
          and_then (patch_full_name_block env user_profile bot' (p_full_name p) w0)
            (\<lambda>bot1 w1.
          and_then (patch_role_block sh user_profile bot1 (p_role p) w1)
            (\<lambda>bot2 w2.
          and_then (patch_owner_block env user_profile bot2 (p_bot_owner_id p) w2)
            (\<lambda>bot3 w3.
          and_then (patch_stream_block sh (do_change_default_sending_stream env) user_profile
                      bot3 (p_default_sending_stream p) w3)
            (\<lambda>bot4 w4.
          and_then (patch_stream_block sh (do_change_default_events_register_stream env)
                      user_profile bot4 (p_default_events_register_stream p) w4)
            (\<lambda>bot5 w5.
          and_then (patch_settings_block sh env user_profile bot5 p w5)
            (\<lambda>bot6 w6.
          and_then (patch_files_block sh env user_profile bot6 request w6)
            (\<lambda>bot7 w7.
               (Inr (json_success (patch_json_result sh env bot7 p w7)), w7))))))))))"

text \<open>
  The requests the claim on role changes is about: a role is requested, it differs from
  the target's current one, one of the two is the owner role, and the acting user is no
  realm owner.
\<close>

definition owner_role_change_by_non_owner :: "user_profile \<Rightarrow> user_profile \<Rightarrow> role option \<Rightarrow> bool" where
  "owner_role_change_by_non_owner user_profile target role' =
     (case role' of
        None \<Rightarrow> False
      | Some r \<Rightarrow> r \<noteq> role target \<and> (r = ROLE_REALM_OWNER \<or> role target = ROLE_REALM_OWNER) \<and>
                  \<not> is_realm_owner user_profile)"

text \<open>
  Sample collaborators for the examples: every check passes, every action leaves the
  database as it is, and the bot with id 11 is a member-role bot of the sample realm.
\<close>

definition demo_shared_env :: "'x shared_env" where
  "demo_shared_env =
     \<lparr>do_change_user_role = (\<lambda>t r a w. (t\<lparr>role := r\<rparr>, w)),
      access_stream_by_name = (\<lambda>u n w. Inr \<lparr>id_stream = 1, name = n\<rparr>),
      check_valid_interface_type = (\<lambda>i. None),
      upload_avatar_image = (\<lambda>f u x. x),
      avatar_url = (\<lambda>u m. Some ''/avatar''),
      require_member_or_admin = (\<lambda>u. None)\<rparr>"

definition demo_update_env :: "unit update_env" where
  "demo_update_env =
     \<lparr>BILLING_ENABLED = False,
      check_spare_license_available_for_changing_guest_user_role = (\<lambda>r w. None),
      check_change_full_name = (\<lambda>t n a w. (Inr (t\<lparr>full_name := n\<rparr>), w)),
      check_remove_custom_profile_field_value = (\<lambda>t i a w. (Inr (), w)),
      validate_user_custom_profile_data = (\<lambda>i c a w. None),
      do_update_user_custom_profile_data_if_changed = (\<lambda>t c w. w),
      validate_email = (\<lambda>e. True),
      validate_email_not_already_in_realm = (\<lambda>r e w. None),
      do_change_user_delivery_email = (\<lambda>t e a w. (t\<lparr>delivery_email := e\<rparr>, w))\<rparr>"

definition demo_bot :: user_profile where
  "demo_bot = (demo_user 11 ''helper-bot'' ROLE_MEMBER)
                \<lparr>is_bot := True, bot_type := Some DEFAULT_BOT, bot_owner_id := Some 6\<rparr>"

definition demo_patch_env :: "unit patch_env" where
  "demo_patch_env =
     \<lparr>access_bot_by_id = (\<lambda>u i w. if i = 11 then Inr demo_bot
                                   else Inl (JsonableError ''No such bot'')),
      check_change_bot_full_name = (\<lambda>b n a w. if n = [] then (Inl (JsonableError ''Name too short!''), w)
                                             else (Inr (b\<lparr>full_name := n\<rparr>), w)),
      get_user_profile_by_id_in_realm = (\<lambda>i r w. None),
      do_change_bot_owner = (\<lambda>b ow a w. (b\<lparr>bot_owner_id := Some (id_user ow)\<rparr>, w)),
      do_change_default_sending_stream = (\<lambda>b s a w. (b\<lparr>default_sending_stream := s\<rparr>, w)),
      do_change_default_events_register_stream =
        (\<lambda>b s a w. (b\<lparr>default_events_register_stream := s\<rparr>, w)),
      do_change_default_all_public_streams =
        (\<lambda>b v a w. (b\<lparr>default_all_public_streams := Some v\<rparr>, w)),
      do_update_outgoing_webhook_service = (\<lambda>b i url a w. w),
      do_update_bot_config_data = (\<lambda>b c w. w),
      do_change_avatar_fields = (\<lambda>b s a w. (b\<lparr>avatar_source := s\<rparr>, w)),
      bot_owner_email = (\<lambda>b w. None)\<rparr>"

definition no_patch :: patch_params where
  "no_patch =
     \<lparr>p_bot_owner_id = None, p_config_data = None, p_default_all_public_streams = None,
      p_default_events_register_stream = None, p_default_sending_stream = None,
      p_full_name = None, p_role = None, p_service_interface = 1,
      p_service_payload_url = None\<rparr>"

definition demo_world :: "unit world" where
  "demo_world =
     \<lparr>users = [demo_user 5 ''desdemona'' ROLE_REALM_OWNER,
               demo_user 6 ''iago'' ROLE_REALM_ADMINISTRATOR,
               demo_user 7 ''hamlet'' ROLE_MEMBER, demo_bot],
      rest = ()\<rparr>"

section \<open>views/users.py: add_bot_backend\<close>

text \<open>
  \<open>Address(username=u, domain=d).addr_spec\<close> of the Python standard library
  (email.headerregistry): the constructor raises \<open>ValueError\<close> (here \<open>None\<close>) when a part
  holds CR or LF; a local part with a character that ends a dot-atom is quoted.
\<close>

definition DOT_ATOM_ENDS :: "char list" where
  "DOT_ATOM_ENDS = ''()<>@,:;'' @ [CHR 0x5C, CHR 0x22] @ ''[] '' @ [CHR 0x09]"

definition quote_string :: "string \<Rightarrow> string" where
  "quote_string v =
     [CHR 0x22] @
     concat (map (\<lambda>c. if c = CHR 0x5C \<or> c = CHR 0x22 then [CHR 0x5C, c] else [c]) v) @
     [CHR 0x22]"

definition Address_addr_spec :: "string \<Rightarrow> string \<Rightarrow> string option" where
  "Address_addr_spec username domain =
     (if CHR 0x0D \<in> set (username @ domain) \<or> CHR 0x0A \<in> set (username @ domain) then None
      else
        (let lp = (if list_ex (\<lambda>c. c \<in> set DOT_ATOM_ENDS) username then quote_string username
                   else username)
         in if domain \<noteq> [] then Some (lp @ ''@'' @ domain)
            else if lp = [] then Some ''<>''
            else Some lp))"

text \<open>The parameters of \<open>add_bot_backend\<close>, with their defaults filled in by the endpoint.\<close>

record add_bot_params =
  a_bot_type :: bot_type
  a_config_data :: "(string \<times> string) list option"
  a_default_all_public_streams :: "bool option"
  a_default_events_register_stream_name :: "string option"
  a_default_sending_stream_name :: "string option"
  a_full_name_raw :: string
  a_interface_type :: int
  a_payload_url :: string
  a_service_name :: "string option"
  a_short_name_raw :: string

text \<open>
  The collaborators of \<open>add_bot_backend\<close> that are not among the sources, taken as they
  come: the validators of zerver/lib/users.py, \<open>Realm.get_bot_domain\<close> (\<open>None\<close> when it
  raises \<open>InvalidFakeEmailDomainError\<close>), the validity of \<open>CreateUserForm\<close> on a full name
  and an address (Django's form machinery), two settings, and the actions that follow the
  creation. These actions write services, bot configuration and events, which are part
  of \<open>rest\<close>, and no row of the user table.
\<close>

record 'x add_bot_env =
  check_short_name :: "string \<Rightarrow> error + string"
  check_full_name :: "string \<Rightarrow> user_profile \<Rightarrow> realm \<Rightarrow> 'x world \<Rightarrow> error + string"
  get_bot_domain :: "realm \<Rightarrow> string option"
  CreateUserForm_is_valid :: "string \<Rightarrow> string \<Rightarrow> bool"
  EMBEDDED_BOTS_ENABLED :: bool
  EMBEDDED_BOTS :: "string list"
  check_can_create_bot :: "user_profile \<Rightarrow> bot_type \<Rightarrow> error option"
  check_valid_bot_type :: "user_profile \<Rightarrow> bot_type \<Rightarrow> error option"
  check_valid_bot_config :: "bot_type \<Rightarrow> string \<Rightarrow> (string \<times> string) list \<Rightarrow> error option"
  generate_api_key :: "'x \<Rightarrow> string \<times> 'x"
  add_service :: "string \<Rightarrow> user_profile \<Rightarrow> string \<Rightarrow> int \<Rightarrow> string \<Rightarrow> 'x \<Rightarrow> 'x"
  set_bot_config :: "user_profile \<Rightarrow> string \<Rightarrow> string \<Rightarrow> 'x \<Rightarrow> 'x"
  notify_created_bot :: "user_profile \<Rightarrow> 'x \<Rightarrow> 'x"

text \<open>
  Modelled from the spec: \<open>get_user_by_delivery_email\<close> (zerver/models/users.py) on the
  user table: the account of the realm that uses the address, \<open>None\<close> for
  \<open>UserProfile.DoesNotExist\<close>. Addresses are compared as they are.
\<close>

definition user_by_delivery_email :: "'x world \<Rightarrow> string \<Rightarrow> realm \<Rightarrow> user_profile option" where
  "user_by_delivery_email w email' r =
     find (\<lambda>u. realm_id u = id_realm r \<and> delivery_email u = email') (users w)"

text \<open>
  Modelled from the spec: \<open>check_bot_name_available\<close> (zerver/lib/users.py) rejects a full
  name that an existing (active) account of the realm already bears.
\<close>

definition check_bot_name_available :: "'x world \<Rightarrow> int \<Rightarrow> string \<Rightarrow> bool \<Rightarrow> error option" where
  "check_bot_name_available w realm_id' full_name' is_activation =
     (if filter (\<lambda>u. realm_id u = realm_id' \<and> full_name u = full_name' \<and> is_active u) (users w)
           \<noteq> []
      then Some (JsonableError ''Name is already in use.'')
      else None)"

text \<open>The keyword arguments \<open>add_bot_backend\<close> hands to \<open>do_create_user\<close>.\<close>

record create_user_args =
  c_email :: string
  c_realm :: realm
  c_full_name :: string
  c_bot_type :: "bot_type option"
  c_bot_owner :: "user_profile option"
  c_avatar_source :: avatar_source
  c_default_sending_stream :: "stream option"
  c_default_events_register_stream :: "stream option"
  c_default_all_public_streams :: "bool option"

text \<open>
  Modelled from the spec: \<open>do_create_user\<close> (zerver/actions/create_user.py) creates the
  account: a new active row with the fields given, the owner being the caller, under the
  next free id and with the API key it is given. A new account is a member.
\<close>

definition next_user_id :: "'x world \<Rightarrow> int" where
  "next_user_id w = foldr max (map id_user (users w)) 0 + 1"

definition do_create_user ::
  "create_user_args \<Rightarrow> string \<Rightarrow> 'x world \<Rightarrow> user_profile \<times> 'x world" where
  "do_create_user a key w =
     (let row = \<lparr>id_user = next_user_id w, realm = c_realm a, delivery_email = c_email a,
                 email = c_email a, full_name = c_full_name a, role = ROLE_MEMBER,
                 is_bot = (c_bot_type a \<noteq> None), bot_type = c_bot_type a,
                 bot_owner_id = map_option id_user (c_bot_owner a), is_active = True,
                 avatar_source = c_avatar_source a, can_change_user_emails = False,
                 can_create_users = False,
                 default_sending_stream = c_default_sending_stream a,
                 default_events_register_stream = c_default_events_register_stream a,
                 default_all_public_streams = c_default_all_public_streams a,
                 api_key = key\<rparr>
      in (row, w\<lparr>users := users w @ [row]\<rparr>))"

text \<open>What lines 579 to 598 compute: the service name, the checked full name, the address.\<close>

record bot_names =
  n_service_name :: "string option"
  n_full_name :: string
  n_email :: string

text \<open>\<open>service_name or short_name\<close>: the service name unless it is \<open>None\<close> or empty.\<close>

definition service_name_or :: "string option \<Rightarrow> string \<Rightarrow> string" where
  "service_name_or service_name short_name =
     (case service_name of None \<Rightarrow> short_name | Some s \<Rightarrow> if s = [] then short_name else s)"

definition add_bot_names ::
  "'x add_bot_env \<Rightarrow> user_profile \<Rightarrow> add_bot_params \<Rightarrow> 'x world \<Rightarrow> error + bot_names" where
  "add_bot_names env user_profile p w =
     (case check_short_name env (a_short_name_raw p) of
        Inl e \<Rightarrow> Inl e
      | Inr short_name \<Rightarrow>
          (case check_full_name env (a_full_name_raw p) user_profile (realm user_profile) w of
             Inl e \<Rightarrow> Inl e
           | Inr full_name' \<Rightarrow>
               (case get_bot_domain env (realm user_profile) of
                  None \<Rightarrow>
                    Inl (JsonableError
                      (''Can'' @ [CHR 0x27] @ ''t create bots until FAKE_EMAIL_DOMAIN is correctly configured.''
                       @ [CHR 0x0A] @ ''Please contact your server administrator.''))
                | Some domain \<Rightarrow>
                    (case Address_addr_spec (short_name @ ''-bot'') domain of
                       None \<Rightarrow> Inl (JsonableError ''Bad name or username'')
                     | Some email' \<Rightarrow>
                         Inr \<lparr>n_service_name =
                                (if a_bot_type p \<noteq> INCOMING_WEBHOOK_BOT
                                 then Some (service_name_or (a_service_name p) short_name)
                                 else a_service_name p),
                              n_full_name = full_name', n_email = email'\<rparr>))))"

text \<open>Lines 601 to 611: the embedded-bot tests and the form.\<close>

definition add_bot_form_checks :: "'x add_bot_env \<Rightarrow> add_bot_params \<Rightarrow> bot_names \<Rightarrow> error option" where
  "add_bot_form_checks env p n =
     (if a_bot_type p = EMBEDDED_BOT \<and> \<not> EMBEDDED_BOTS_ENABLED env then
        Some (JsonableError ''Embedded bots are not enabled.'')
      else if a_bot_type p = EMBEDDED_BOT \<and>
              (case n_service_name n of None \<Rightarrow> True | Some s \<Rightarrow> s \<notin> set (EMBEDDED_BOTS env)) then
        Some (JsonableError ''Invalid embedded bot name.'')
      else if \<not> CreateUserForm_is_valid env (n_full_name n) (n_email n) then
        Some (JsonableError ''Bad name or username'')
      else None)"

text \<open>Lines 612 to 622: the address must be free, then the full name must be.\<close>

definition add_bot_db_checks :: "'x world \<Rightarrow> user_profile \<Rightarrow> bot_names \<Rightarrow> error option" where
  "add_bot_db_checks w user_profile n =
     (case user_by_delivery_email w (n_email n) (realm user_profile) of
        Some u \<Rightarrow> Some EmailAlreadyInUseError
      | None \<Rightarrow> check_bot_name_available w (realm_id user_profile) (n_full_name n) False)"

text \<open>Lines 624 to 626.\<close>

definition add_bot_permission_checks ::
  "'x shared_env \<Rightarrow> 'x add_bot_env \<Rightarrow> user_profile \<Rightarrow> add_bot_params \<Rightarrow> error option" where
  "add_bot_permission_checks sh env user_profile p =
     (case check_can_create_bot env user_profile (a_bot_type p) of
        Some e \<Rightarrow> Some e
      | None \<Rightarrow>
          (case check_valid_bot_type env user_profile (a_bot_type p) of
             Some e \<Rightarrow> Some e
           | None \<Rightarrow> check_valid_interface_type sh (a_interface_type p)))"

text \<open>Lines 628 to 633: the avatar source follows from the number of uploaded files.\<close>

definition add_bot_avatar_source :: "view_request \<Rightarrow> error + avatar_source" where
  "add_bot_avatar_source request =
     (if length (FILES request) = 0 then Inr AVATAR_FROM_GRAVATAR
      else if length (FILES request) \<noteq> 1 then
        Inl (JsonableError ''You may only upload one file at a time'')
      else Inr AVATAR_FROM_USER)"

definition add_bot_stream ::
  "'x shared_env \<Rightarrow> user_profile \<Rightarrow> string option \<Rightarrow> 'x world \<Rightarrow> error + stream option" where
  "add_bot_stream sh user_profile stream_name w =
     (case stream_name of
        None \<Rightarrow> Inr None
      | Some n \<Rightarrow>
          (case access_stream_by_name sh user_profile n w of
             Inl e \<Rightarrow> Inl e
           | Inr s \<Rightarrow> Inr (Some s)))"

text \<open>\<open>bot_type in (...) and service_name\<close>: the service name counts when it is not empty.\<close>

definition truthy :: "string option \<Rightarrow> bool" where
  "truthy s = (case s of None \<Rightarrow> False | Some v \<Rightarrow> v \<noteq> [])"

definition add_bot_config_check ::
  "'x add_bot_env \<Rightarrow> add_bot_params \<Rightarrow> bot_names \<Rightarrow> error option" where
  "add_bot_config_check env p n =
     (if a_bot_type p \<in> set [INCOMING_WEBHOOK_BOT, EMBEDDED_BOT] \<and> truthy (n_service_name n) then
        check_valid_bot_config env (a_bot_type p)
          (case n_service_name n of Some s \<Rightarrow> s | None \<Rightarrow> [])
          (case a_config_data p of None \<Rightarrow> [] | Some c \<Rightarrow> c)
      else None)"

text \<open>
  Lines 663 to 686, after the account exists: the upload, the service, the bot
  configuration and the notification, all on \<open>rest\<close>. The assertion on the file's size
  is made here, so its failure leaves the account created.
\<close>

definition add_bot_after_create ::
  "'x shared_env \<Rightarrow> 'x add_bot_env \<Rightarrow> view_request \<Rightarrow> add_bot_params \<Rightarrow> bot_names \<Rightarrow>
     user_profile \<Rightarrow> 'x \<Rightarrow> error + 'x" where
  "add_bot_after_create sh env request p n bot_profile x =
     (case (case FILES request of
              [user_file] \<Rightarrow>
                if file_size user_file = None then Inl AssertionError
                else Inr (upload_avatar_image sh user_file bot_profile x)
            | fs \<Rightarrow> Inr x) of
        Inl e \<Rightarrow> Inl e
      | Inr x1 \<Rightarrow>
          (case (if a_bot_type p \<in> set [OUTGOING_WEBHOOK_BOT, EMBEDDED_BOT] then
                   (case n_service_name n of
                      None \<Rightarrow> Inl AssertionError
                    | Some s \<Rightarrow>
                        (case generate_api_key env x1 of
                           (token, x2) \<Rightarrow>
                             Inr (add_service env s bot_profile (a_payload_url p)
                                    (a_interface_type p) token x2)))
                 else Inr x1) of
             Inl e \<Rightarrow> Inl e
           | Inr x3 \<Rightarrow>
               (let x4 = (if a_bot_type p = INCOMING_WEBHOOK_BOT \<and> truthy (n_service_name n)
                          then set_bot_config env bot_profile ''integration_id''
                                 (case n_service_name n of Some s \<Rightarrow> s | None \<Rightarrow> []) x3
                          else x3);
                    x5 = (if a_bot_type p \<in> set [INCOMING_WEBHOOK_BOT, EMBEDDED_BOT]
                          then fold (\<lambda>(key, value). set_bot_config env bot_profile key value)
                                 (case a_config_data p of None \<Rightarrow> [] | Some c \<Rightarrow> c) x4
                          else x4)
                in Inr (notify_created_bot env bot_profile x5))))"

definition add_bot_json_result :: "'x shared_env \<Rightarrow> user_profile \<Rightarrow> (string \<times> jvalue) list" where
  "add_bot_json_result sh bot_profile =
     [(''user_id'', JInt (id_user bot_profile)),
      (''api_key'', JString (api_key bot_profile)),
      (''avatar_url'', jstring_opt (avatar_url sh bot_profile False)),
      (''default_sending_stream'',
         jstring_opt (get_stream_name (default_sending_stream bot_profile))),
      (''default_events_register_stream'',
         jstring_opt (get_stream_name (default_events_register_stream bot_profile))),
      (''default_all_public_streams'',
         case default_all_public_streams bot_profile of None \<Rightarrow> JNull | Some b \<Rightarrow> JBool b)]"

text \<open>
  Lines 628 to 698, once the names are known and the tests of lines 601 to 626 have
  passed: the file count, the streams, the configuration test, and the creation.
\<close>

definition add_bot_create ::
  "'x shared_env \<Rightarrow> 'x add_bot_env \<Rightarrow> view_request \<Rightarrow> user_profile \<Rightarrow> add_bot_params \<Rightarrow>
     bot_names \<Rightarrow> 'x world \<Rightarrow> (error + response) \<times> 'x world" where
  "add_bot_create sh env request user_profile p n w =
     (case add_bot_avatar_source request of
        Inl e \<Rightarrow> (Inl e, w)
      | Inr avatar_source' \<Rightarrow>
     (case add_bot_stream sh user_profile (a_default_sending_stream_name p) w of
        Inl e \<Rightarrow> (Inl e, w)
      | Inr sending \<Rightarrow>
     (case add_bot_stream sh user_profile (a_default_events_register_stream_name p) w of
        Inl e \<Rightarrow> (Inl e, w)
      | Inr events \<Rightarrow>
     (case add_bot_config_check env p n of
        Some e \<Rightarrow> (Inl e, w)
      | None \<Rightarrow>
     (case generate_api_key env (rest w) of
        (key, x0) \<Rightarrow>
     (case do_create_user
             \<lparr>c_email = n_email n, c_realm = realm user_profile, c_full_name = n_full_name n,
              c_bot_type = Some (a_bot_type p), c_bot_owner = Some user_profile,
              c_avatar_source = avatar_source', c_default_sending_stream = sending,
              c_default_events_register_stream = events,
              c_default_all_public_streams = a_default_all_public_streams p\<rparr>
             key (w\<lparr>rest := x0\<rparr>) of
        (bot_profile, w1) \<Rightarrow>
     (case add_bot_after_create sh env request p n bot_profile (rest w1) of
        Inl e \<Rightarrow> (Inl e, w1)
      | Inr x \<Rightarrow>
          (Inr (json_success (add_bot_json_result sh bot_profile)), w1\<lparr>rest := x\<rparr>))))))))"

text \<open>\<open>add_bot_backend\<close>, behind its decorator \<open>require_member_or_admin\<close>.\<close>

definition add_bot_backend ::
  "'x shared_env \<Rightarrow> 'x add_bot_env \<Rightarrow> view_request \<Rightarrow> user_profile \<Rightarrow> add_bot_params \<Rightarrow>
     'x world \<Rightarrow> (error + response) \<times> 'x world" where
  "add_bot_backend sh env request user_profile p w =
     (case require_member_or_admin sh user_profile of
        Some e \<Rightarrow> (Inl e, w)
      | None \<Rightarrow>
     (case add_bot_names env user_profile p w of
        Inl e \<Rightarrow> (Inl e, w)
      | Inr n \<Rightarrow>
     (case add_bot_form_checks env p n of
        Some e \<Rightarrow> (Inl e, w)
      | None \<Rightarrow>
     (case add_bot_db_checks w user_profile n of
        Some e \<Rightarrow> (Inl e, w)
      | None \<Rightarrow>
     (case add_bot_permission_checks sh env user_profile p of
        Some e \<Rightarrow> (Inl e, w)
      | None \<Rightarrow> add_bot_create sh env request user_profile p n w)))))"

text \<open>
  The tests placed before the count of uploaded files (lines 579 to 626) pass and yield
  the names \<open>n\<close>.
\<close>

definition passes_earlier_checks ::
  "'x shared_env \<Rightarrow> 'x add_bot_env \<Rightarrow> user_profile \<Rightarrow> add_bot_params \<Rightarrow> 'x world \<Rightarrow> bot_names \<Rightarrow>
     bool" where
  "passes_earlier_checks sh env user_profile p w n =
     (require_member_or_admin sh user_profile = None \<and>
      add_bot_names env user_profile p w = Inr n \<and>
      add_bot_form_checks env p n = None \<and>
      add_bot_db_checks w user_profile n = None \<and>
      add_bot_permission_checks sh env user_profile p = None)"

text \<open>The tests placed before the two database tests (lines 579 to 611) pass and yield \<open>n\<close>.\<close>

definition reaches_db_checks ::
  "'x shared_env \<Rightarrow> 'x add_bot_env \<Rightarrow> user_profile \<Rightarrow> add_bot_params \<Rightarrow> 'x world \<Rightarrow> bot_names \<Rightarrow>
     bool" where
  "reaches_db_checks sh env user_profile p w n =
     (require_member_or_admin sh user_profile = None \<and>
      add_bot_names env user_profile p w = Inr n \<and>
      add_bot_form_checks env p n = None)"

text \<open>
  Sample collaborators for the examples: the validators strip nothing and accept
  everything, the sample realm's bot domain is \<open>bots.example.com\<close>, and keys are drawn
  from a counter.
\<close>

definition demo_add_env :: "nat add_bot_env" where
  "demo_add_env =
     \<lparr>check_short_name = (\<lambda>s. if s = [] then Inl (JsonableError ''Bad name or username'') else Inr s),
      check_full_name = (\<lambda>n u r w. Inr n),
      get_bot_domain = (\<lambda>r. Some ''bots.example.com''),
      CreateUserForm_is_valid = (\<lambda>n e. True),
      EMBEDDED_BOTS_ENABLED = False,
      EMBEDDED_BOTS = [],
      check_can_create_bot = (\<lambda>u t. None),
      check_valid_bot_type = (\<lambda>u t. None),
      check_valid_bot_config = (\<lambda>t s c. None),
      generate_api_key = (\<lambda>k. (replicate (Suc k) CHR ''k'', Suc k)),
      add_service = (\<lambda>s u url i t x. x),
      set_bot_config = (\<lambda>u k v x. x),
      notify_created_bot = (\<lambda>u x. x)\<rparr>"

definition foo_params :: add_bot_params where
  "foo_params =
     \<lparr>a_bot_type = DEFAULT_BOT, a_config_data = None, a_default_all_public_streams = None,
      a_default_events_register_stream_name = None, a_default_sending_stream_name = None,
      a_full_name_raw = ''Foo Bot'', a_interface_type = 1, a_payload_url = [],
      a_service_name = None, a_short_name_raw = ''foo''\<rparr>"

definition hamlet_world :: "nat world" where
  "hamlet_world = \<lparr>users = [demo_user 7 ''hamlet'' ROLE_MEMBER], rest = 0\<rparr>"

text \<open>
  The example of the spec: Hamlet creates the bot \<open>foo\<close> named \<open>Foo Bot\<close>; the row and the
  database this leaves, two requests, and a second bot \<open>bar\<close> that asks for the same full
  name.
\<close>

definition foo_bot_row :: user_profile where
  "foo_bot_row =
     \<lparr>id_user = 8, realm = demo_realm, delivery_email = ''foo-bot@bots.example.com'',
      email = ''foo-bot@bots.example.com'', full_name = ''Foo Bot'', role = ROLE_MEMBER,
      is_bot = True, bot_type = Some DEFAULT_BOT, bot_owner_id = Some 7, is_active = True,
      avatar_source = AVATAR_FROM_GRAVATAR, can_change_user_emails = False,
      can_create_users = False, default_sending_stream = None,
      default_events_register_stream = None, default_all_public_streams = None,
      api_key = ''k''\<rparr>"

definition foo_world :: "nat world" where
  "foo_world = \<lparr>users = [demo_user 7 ''hamlet'' ROLE_MEMBER, foo_bot_row], rest = 1\<rparr>"

definition no_files :: view_request where
  "no_files = \<lparr>FILES = [], QUERY_STRING = []\<rparr>"


definition foo_names :: bot_names where
  "foo_names = \<lparr>n_service_name = Some ''foo'', n_full_name = ''Foo Bot'',
                 n_email = ''foo-bot@bots.example.com''\<rparr>"

definition bar_params :: add_bot_params where
  "bar_params = foo_params\<lparr>a_short_name_raw := ''bar''\<rparr>"

definition foo_response :: response where
  "foo_response =
     json_success
       [(''user_id'', JInt 8), (''api_key'', JString ''k''), (''avatar_url'', JString ''/avatar''),
        (''default_sending_stream'', JNull), (''default_events_register_stream'', JNull),
        (''default_all_public_streams'', JNull)]"

definition bar_names :: bot_names where
  "bar_names = \<lparr>n_service_name = Some ''bar'', n_full_name = ''Foo Bot'',
                 n_email = ''bar-bot@bots.example.com''\<rparr>"

section \<open>views/users.py: avatar_by_id and avatar_by_email\<close>

text \<open>\<open>str(n)\<close> for an integer and for a truth value, as an f-string formats them.\<close>

fun str_nat :: "nat \<Rightarrow> string" where
  "str_nat n =
     (if n < 10 then [char_of (48 + n)] else str_nat (n div 10) @ [char_of (48 + n mod 10)])"

declare str_nat.simps [simp del]

definition str_int :: "int \<Rightarrow> string" where
  "str_int i = (if i < 0 then ''-'' @ str_nat (nat (- i)) else str_nat (nat i))"

definition str_bool :: "bool \<Rightarrow> string" where
  "str_bool b = (if b then ''True'' else ''False'')"

text \<open>
  The collaborators of the avatar endpoints that are not among the sources, taken as they
  come: \<open>get_valid_realm_from_request\<close>, the realm's web-public access flag
  \<open>Realm.allow_web_public_streams_access\<close>, the setting \<open>RATE_LIMITING\<close>, the spectator
  rate limiter (it counts in \<open>rest\<close> and may raise), the two user lookups (\<open>None\<close> for
  \<open>UserProfile.DoesNotExist\<close>), \<open>check_can_access_user\<close> and the URL helpers.
\<close>

record 'x avatar_env =
  get_valid_realm_from_request :: "view_request \<Rightarrow> error + realm"
  allow_web_public_streams_access :: "realm \<Rightarrow> bool"
  settings_RATE_LIMITING :: bool
  rate_limit_spectator_attachment_access_by_file :: "string \<Rightarrow> 'x \<Rightarrow> error option \<times> 'x"
  get_user_by_id_in_realm_including_cross_realm ::
    "int \<Rightarrow> realm \<Rightarrow> 'x world \<Rightarrow> user_profile option"
  get_user_including_cross_realm :: "string \<Rightarrow> realm \<Rightarrow> 'x world \<Rightarrow> user_profile option"
  check_can_access_user :: "user_profile \<Rightarrow> user_profile \<Rightarrow> 'x world \<Rightarrow> bool"
  get_avatar_for_inaccessible_user :: string
  get_gravatar_url :: "string \<Rightarrow> int \<Rightarrow> int \<Rightarrow> bool \<Rightarrow> string"
  append_url_query_string :: "string \<Rightarrow> string \<Rightarrow> string"

text \<open>The end of both endpoints: the query string is appended when there is one.\<close>

definition redirect_to :: "'x avatar_env \<Rightarrow> view_request \<Rightarrow> string \<Rightarrow> response" where
  "redirect_to env request url =
     redirect (if QUERY_STRING request \<noteq> [] then append_url_query_string env url (QUERY_STRING request)
               else url)"

text \<open>
  The \<open>try\<close> block of \<open>avatar_by_id\<close>: \<open>maybe_user_profile\<close> is \<open>None\<close> for the anonymous
  user, for whom \<open>is_authenticated\<close> is false. \<open>avatar_url\<close> may answer \<open>None\<close>, which
  fails the assertion.
\<close>

definition avatar_by_id_url ::
  "'x shared_env \<Rightarrow> 'x avatar_env \<Rightarrow> user_profile option \<Rightarrow> int \<Rightarrow> bool \<Rightarrow> realm \<Rightarrow> 'x world \<Rightarrow>
     error + string" where
  "avatar_by_id_url sh env maybe_user_profile user_id medium realm' w =
     (case get_user_by_id_in_realm_including_cross_realm env user_id realm' w of
        None \<Rightarrow> Inr (get_avatar_for_inaccessible_user env)
      | Some avatar_user_profile \<Rightarrow>
          if (case maybe_user_profile of
                None \<Rightarrow> False
              | Some u \<Rightarrow> \<not> check_can_access_user env avatar_user_profile u w)
          then Inr (get_avatar_for_inaccessible_user env)
          else (case avatar_url sh avatar_user_profile medium of
                  None \<Rightarrow> Inl AssertionError
                | Some url \<Rightarrow> Inr url))"

text \<open>The spectator's rate limit, under the key \<open>f"{realm.id}/{user_id}/{medium}"\<close>.\<close>

definition spectator_rate_limit ::
  "'x avatar_env \<Rightarrow> realm \<Rightarrow> int \<Rightarrow> bool \<Rightarrow> 'x \<Rightarrow> error option \<times> 'x" where
  "spectator_rate_limit env realm' user_id medium x =
     (if settings_RATE_LIMITING env then
        rate_limit_spectator_attachment_access_by_file env
          (str_int (id_realm realm') @ ''/'' @ str_int user_id @ ''/'' @ str_bool medium) x
      else (None, x))"

definition avatar_by_id ::
  "'x shared_env \<Rightarrow> 'x avatar_env \<Rightarrow> view_request \<Rightarrow> user_profile option \<Rightarrow> int \<Rightarrow> bool \<Rightarrow>
     'x world \<Rightarrow> (error + response) \<times> 'x world" where
  "avatar_by_id sh env request maybe_user_profile user_id medium w =
     (case (case maybe_user_profile of
              None \<Rightarrow>
                (case get_valid_realm_from_request env request of
                   Inl e \<Rightarrow> (Inl e, w)
                 | Inr realm' \<Rightarrow>
                     if \<not> allow_web_public_streams_access env realm' then
                       (Inl MissingAuthenticationError, w)
                     else
                       (case spectator_rate_limit env realm' user_id medium (rest w) of
                          (Some e, x) \<Rightarrow> (Inl e, w\<lparr>rest := x\<rparr>)
                        | (None, x) \<Rightarrow> (Inr realm', w\<lparr>rest := x\<rparr>)))
            | Some u \<Rightarrow> (Inr (realm u), w)) of
        (Inl e, w1) \<Rightarrow> (Inl e, w1)
      | (Inr realm', w1) \<Rightarrow>
          (case avatar_by_id_url sh env maybe_user_profile user_id medium realm' w1 of
             Inl e \<Rightarrow> (Inl e, w1)
           | Inr url \<Rightarrow> (Inr (redirect_to env request url), w1)))"

definition avatar_by_email ::
  "'x shared_env \<Rightarrow> 'x avatar_env \<Rightarrow> view_request \<Rightarrow> user_profile option \<Rightarrow> string \<Rightarrow> bool \<Rightarrow>
     'x world \<Rightarrow> (error + response) \<times> 'x world" where
  "avatar_by_email sh env request maybe_user_profile email' medium w =
     (case maybe_user_profile of
        None \<Rightarrow> (Inl MissingAuthenticationError, w)
      | Some u \<Rightarrow>
          (case (case get_user_including_cross_realm env email' (realm u) w of
                   None \<Rightarrow> Inr (get_gravatar_url env email' 1 (id_realm (realm u)) medium)
                 | Some avatar_user_profile \<Rightarrow>
                     if \<not> check_can_access_user env avatar_user_profile u w then
                       Inr (get_avatar_for_inaccessible_user env)
                     else (case avatar_url sh avatar_user_profile medium of
                             None \<Rightarrow> Inl AssertionError
                           | Some url \<Rightarrow> Inr url)) of
             Inl e \<Rightarrow> (Inl e, w)
           | Inr url \<Rightarrow> (Inr (redirect_to env request url), w)))"

text \<open>A response that redirects, and an \<open>avatar_url\<close> that always answers a URL.\<close>

definition is_redirect :: "error + response \<Rightarrow> bool" where
  "is_redirect r = (case r of Inr (redirect url) \<Rightarrow> True | _ \<Rightarrow> False)"

definition avatar_url_answers :: "'x shared_env \<Rightarrow> bool" where
  "avatar_url_answers sh = (\<forall>u m. avatar_url sh u m \<noteq> None)"

text \<open>
  Sample collaborators for the examples: the sample realm allows web-public access, the
  limiter lets three requests through, users are looked up in the table.
\<close>

definition demo_avatar_env :: "nat avatar_env" where
  "demo_avatar_env =
     \<lparr>get_valid_realm_from_request = (\<lambda>r. Inr demo_realm),
      allow_web_public_streams_access = (\<lambda>r. id_realm r = 2),
      settings_RATE_LIMITING = True,
      rate_limit_spectator_attachment_access_by_file =
        (\<lambda>k n. (if 3 \<le> n then Some (RateLimitedError 60) else None, Suc n)),
      get_user_by_id_in_realm_including_cross_realm =
        (\<lambda>i r w. find (\<lambda>u. id_user u = i \<and> realm_id u = id_realm r) (users w)),
      get_user_including_cross_realm =
        (\<lambda>e r w. find (\<lambda>u. delivery_email u = e \<and> realm_id u = id_realm r) (users w)),
      check_can_access_user = (\<lambda>t u w. True),
      get_avatar_for_inaccessible_user = ''/static/images/unknown-user-avatar.png'',
      get_gravatar_url = (\<lambda>e v r m. ''https://secure.gravatar.com/avatar/'' @ e),
      append_url_query_string = (\<lambda>u q. u @ ''?'' @ q)\<rparr>"

section \<open>Facts about the helpers\<close>

lemma py_getitem_first: "s \<noteq> [] \<Longrightarrow> py_getitem s 0 = Inr (hd s)"
  by (cases s) (simp_all add: py_getitem_def)

lemma py_getitem_last: "s \<noteq> [] \<Longrightarrow> py_getitem s (- 1) = Inr (last s)"
proof -
  assume ne: "s \<noteq> []"
  then have "nat (- 1 + int (length s)) = length s - 1"
    by (cases s) simp_all
  with ne show ?thesis
    by (simp add: py_getitem_def last_conv_nth)
qed

lemma re_match_length: "re_match_subdomain_chars n s \<Longrightarrow> n \<le> length s"
  by (auto simp: re_match_subdomain_chars_def)

lemma re_match_mono: "re_match_subdomain_chars n s \<Longrightarrow> m \<le> n \<Longrightarrow> re_match_subdomain_chars m s"
  by (auto simp: re_match_subdomain_chars_def)

lemma no_dash_prefix: "s \<noteq> [] \<Longrightarrow> prefix ''-'' s \<longleftrightarrow> hd s = CHR ''-''"
  by (cases s) auto

lemma no_dash_suffix: "s \<noteq> [] \<Longrightarrow> suffix ''-'' s \<longleftrightarrow> last s = CHR ''-''"
  by (cases s rule: rev_cases) auto

lemma root_domain_available_registered:
  "is_root_domain_available env \<longleftrightarrow> \<not> registered env SUBDOMAIN_FOR_ROOT_DOMAIN"
  unfolding is_root_domain_available_def registered_def filter_empty_conv image_iff
  by auto

lemma not_registered_filter:
  "\<not> registered env s \<Longrightarrow> filter (\<lambda>r. string_id r = s) (realms env) = []"
  by (auto simp: registered_def filter_empty_conv)

section \<open>Claims about check_subdomain_available\<close>

text \<open>
  C5. Every candidate subdomain that matches \<open>^[a-z0-9-]{3,}$\<close>, does not start or end
  with a dash, is not registered by an existing realm and is not reserved is accepted:
  \<open>check_subdomain_available\<close> returns without raising, whatever the override flag.
\<close>

theorem check_subdomain_available_accepts:
  assumes "spec_subdomain_candidate subdomain"
    and "\<not> registered env subdomain"
    and "\<not> is_reserved_subdomain env subdomain"
  shows "check_subdomain_available env subdomain allow_reserved_subdomain = Inr ()"
proof -
  from assms(1) have m3: "re_match_subdomain_chars 3 subdomain"
    and np: "\<not> prefix ''-'' subdomain" and ns: "\<not> suffix ''-'' subdomain"
    by (simp_all add: spec_subdomain_candidate_def)
  from m3 have len: "3 \<le> length subdomain" by (rule re_match_length)
  then have ne: "subdomain \<noteq> []" by auto
  from ne have root: "subdomain \<noteq> SUBDOMAIN_FOR_ROOT_DOMAIN"
    by (simp add: SUBDOMAIN_FOR_ROOT_DOMAIN_def)
  from m3 have m0: "re_match_subdomain_chars 0 subdomain"
    by (rule re_match_mono) simp
  from np ne have h: "hd subdomain \<noteq> CHR ''-''" by (simp add: no_dash_prefix)
  from ns ne have l: "last subdomain \<noteq> CHR ''-''" by (simp add: no_dash_suffix)
  from assms(2) have f: "filter (\<lambda>r. string_id r = subdomain) (realms env) = []"
    by (rule not_registered_filter)
  from len have nl: "\<not> length subdomain < 3" by simp
  show ?thesis
    unfolding check_subdomain_available_def
    by (simp add: root py_getitem_first [OF ne] py_getitem_last [OF ne] h l m0 nl f assms(3))
qed

theorem check_subdomain_available_accepts_witness:
  "spec_subdomain_candidate ''my-team'' \<and>
   \<not> registered \<lparr>is_reserved_subdomain = (\<lambda>s. s = ''zulip''),
        realms = [\<lparr>id_realm = 1, string_id = ''acme'', deactivated = False\<rparr>]\<rparr> ''my-team'' \<and>
   check_subdomain_available
     \<lparr>is_reserved_subdomain = (\<lambda>s. s = ''zulip''),
      realms = [\<lparr>id_realm = 1, string_id = ''acme'', deactivated = False\<rparr>]\<rparr> ''my-team'' False = Inr ()"
proof -
  let ?env = "\<lparr>is_reserved_subdomain = (\<lambda>s. s = ''zulip''),
        realms = [\<lparr>id_realm = 1, string_id = ''acme'', deactivated = False\<rparr>]\<rparr>"
  have c: "spec_subdomain_candidate ''my-team''"
    by (simp add: spec_subdomain_candidate_def re_match_subdomain_chars_def subdomain_char_def
        suffix_to_prefix)
  have r: "\<not> registered ?env ''my-team''" by (simp add: registered_def)
  have v: "\<not> is_reserved_subdomain ?env ''my-team''" by simp
  from check_subdomain_available_accepts [OF c r v, of False] c r show ?thesis by simp
qed

text \<open>
  C6. On the root-domain sentinel the check accepts if and only if no realm of the table
  owns the root domain, that is, no row has the sentinel as its \<open>string_id\<close>; when a realm
  owns it the check fails with the "unavailable" error. The reserved names and the
  override flag do not matter on this branch.
\<close>

theorem check_subdomain_available_root_domain:
  "(check_subdomain_available env SUBDOMAIN_FOR_ROOT_DOMAIN allow_reserved_subdomain = Inr ()) =
     (\<not> registered env SUBDOMAIN_FOR_ROOT_DOMAIN) \<and>
   (registered env SUBDOMAIN_FOR_ROOT_DOMAIN \<longrightarrow>
      check_subdomain_available env SUBDOMAIN_FOR_ROOT_DOMAIN allow_reserved_subdomain =
        Inl (ValidationError ''Subdomain is already in use. Please choose a different one.''))"
proof (cases "registered env SUBDOMAIN_FOR_ROOT_DOMAIN")
  case True
  then have "\<not> is_root_domain_available env"
    by (simp add: root_domain_available_registered)
  with True show ?thesis
    by (simp add: check_subdomain_available_def)
next
  case False
  then have "is_root_domain_available env"
    by (simp add: root_domain_available_registered)
  with False show ?thesis
    by (simp add: check_subdomain_available_def)
qed

theorem check_subdomain_available_root_domain_witness:
  "registered
     \<lparr>is_reserved_subdomain = (\<lambda>s. False),
      realms = [\<lparr>id_realm = 1, string_id = ''acme'', deactivated = False\<rparr>,
                \<lparr>id_realm = 2, string_id = SUBDOMAIN_FOR_ROOT_DOMAIN, deactivated = False\<rparr>]\<rparr>
     SUBDOMAIN_FOR_ROOT_DOMAIN \<and>
   check_subdomain_available
     \<lparr>is_reserved_subdomain = (\<lambda>s. False),
      realms = [\<lparr>id_realm = 1, string_id = ''acme'', deactivated = False\<rparr>,
                \<lparr>id_realm = 2, string_id = SUBDOMAIN_FOR_ROOT_DOMAIN, deactivated = False\<rparr>]\<rparr>
     SUBDOMAIN_FOR_ROOT_DOMAIN True =
     Inl (ValidationError ''Subdomain is already in use. Please choose a different one.'') \<and>
   \<not> registered
     \<lparr>is_reserved_subdomain = (\<lambda>s. True),
      realms = [\<lparr>id_realm = 1, string_id = ''acme'', deactivated = False\<rparr>]\<rparr>
     SUBDOMAIN_FOR_ROOT_DOMAIN \<and>
   check_subdomain_available
     \<lparr>is_reserved_subdomain = (\<lambda>s. True),
      realms = [\<lparr>id_realm = 1, string_id = ''acme'', deactivated = False\<rparr>]\<rparr>
     SUBDOMAIN_FOR_ROOT_DOMAIN False = Inr ()"
proof -
  let ?owned = "\<lparr>is_reserved_subdomain = (\<lambda>s. False),
      realms = [\<lparr>id_realm = 1, string_id = ''acme'', deactivated = False\<rparr>,
                \<lparr>id_realm = 2, string_id = SUBDOMAIN_FOR_ROOT_DOMAIN, deactivated = False\<rparr>]\<rparr>"
  let ?free = "\<lparr>is_reserved_subdomain = (\<lambda>s. True),
      realms = [\<lparr>id_realm = 1, string_id = ''acme'', deactivated = False\<rparr>]\<rparr>"
  have o: "registered ?owned SUBDOMAIN_FOR_ROOT_DOMAIN"
    by (simp add: registered_def)
  have f: "\<not> registered ?free SUBDOMAIN_FOR_ROOT_DOMAIN"
    by (simp add: registered_def SUBDOMAIN_FOR_ROOT_DOMAIN_def)
  from check_subdomain_available_root_domain [of ?owned True]
    check_subdomain_available_root_domain [of ?free False] o f
  show ?thesis by simp
qed

text \<open>
  C10. The first and the last character are read only on the branch that follows the
  root-domain test, so an input that is non-empty or equal to the root-domain sentinel
  never meets an out-of-range read: the check returns or raises one of its own
  validation errors, never \<open>IndexError\<close>.
\<close>

theorem check_subdomain_available_no_index_error:
  assumes "subdomain \<noteq> [] \<or> subdomain = SUBDOMAIN_FOR_ROOT_DOMAIN"
  shows "check_subdomain_available env subdomain allow_reserved_subdomain \<noteq> Inl IndexError"
proof (cases "subdomain = SUBDOMAIN_FOR_ROOT_DOMAIN")
  case True
  then show ?thesis by (simp add: check_subdomain_available_def)
next
  case False
  with assms have ne: "subdomain \<noteq> []" by simp
  show ?thesis
    unfolding check_subdomain_available_def
    by (simp add: False py_getitem_first [OF ne] py_getitem_last [OF ne])
qed

theorem check_subdomain_available_no_index_error_witness:
  "''-'' \<noteq> [] \<and>
   check_subdomain_available
     \<lparr>is_reserved_subdomain = (\<lambda>s. False), realms = []\<rparr>
     ''-'' False \<noteq> Inl IndexError \<and>
   check_subdomain_available
     \<lparr>is_reserved_subdomain = (\<lambda>s. False), realms = []\<rparr>
     SUBDOMAIN_FOR_ROOT_DOMAIN False \<noteq> Inl IndexError"
proof -
  have h: "''-'' \<noteq> [] \<or> ''-'' = SUBDOMAIN_FOR_ROOT_DOMAIN" by simp
  have r: "SUBDOMAIN_FOR_ROOT_DOMAIN \<noteq> [] \<or> SUBDOMAIN_FOR_ROOT_DOMAIN = SUBDOMAIN_FOR_ROOT_DOMAIN"
    by simp
  from check_subdomain_available_no_index_error [OF h]
    check_subdomain_available_no_index_error [OF r]
  show ?thesis by simp
qed

section \<open>Claims about clean_captcha\<close>

lemma verify_step_passes:
  "verify_step lib p k st = (None, st1) \<longleftrightarrow>
     (st1 = st \<and> (\<exists>err. verify_solution lib p k = Inr (True, err)))"
  unfolding verify_step_def
  by (cases "verify_solution lib p k")
     (auto split: error.splits prod.splits if_splits)

lemma verify_step_state_free:
  "verify_step lib p k st = (None, st) \<Longrightarrow> verify_step lib p k st0 = (None, st0)"
  by (simp add: verify_step_passes)

lemma clean_captcha_success:
  assumes "clean_captcha settings lib st captcha = (Inr r, st')"
  shows "\<exists>key d c. USING_CAPTCHA settings \<and> ALTCHA_HMAC_KEY settings = Some key \<and> key \<noteq> [] \<and>
           verify_step lib (captcha_payload captcha) key st = (None, st) \<and>
           b64_json_loads lib (captcha_payload captcha) = Inr (JObject d) \<and>
           d ''challenge'' = Some c \<and> r = JObject d \<and>
           c \<in> fst ` set (session_get_altcha_challenges st) \<and>
           st' = st\<lparr>altcha_challenges :=
                     Some (filter (\<lambda>e. fst e \<noteq> c) (session_get_altcha_challenges st))\<rparr>"
  using assms
  unfolding clean_captcha_def Let_def
  by (auto simp: verify_step_passes
           split: if_splits option.splits sum.splits prod.splits json.splits)

lemma clean_captcha_not_outstanding:
  assumes "USING_CAPTCHA settings" "ALTCHA_HMAC_KEY settings = Some key" "key \<noteq> []"
    and "verify_step lib (captcha_payload captcha) key st = (None, st)"
    and "b64_json_loads lib (captcha_payload captcha) = Inr (JObject d)"
    and "d ''challenge'' = Some c"
    and "c \<notin> outstanding st"
  shows "clean_captcha settings lib st captcha =
           (Inl validation_failed, log_line ''Expired or replayed altcha solution'' st)"
  using assms
  unfolding clean_captcha_def Let_def outstanding_def
  by simp

lemma clean_captcha_never_without_challenge:
  assumes "b64_json_loads lib (captcha_payload captcha) = Inr (JObject d)"
    and "d ''challenge'' = Some c"
    and "c \<notin> outstanding st"
  shows "\<exists>e. fst (clean_captcha settings lib st captcha) = Inl e"
  using assms
  unfolding clean_captcha_def Let_def outstanding_def
  by (auto simp: verify_step_passes
           split: if_splits option.splits sum.splits prod.splits json.splits)

lemma outstanding_after_removal:
  "c \<notin> outstanding (st\<lparr>altcha_challenges :=
       Some (filter (\<lambda>e. fst e \<noteq> c) (session_get_altcha_challenges st))\<rparr>)"
  by (auto simp: outstanding_def session_get_altcha_challenges_def)

text \<open>
  C1. If \<open>clean_captcha\<close> succeeds, the payload's challenge identifier was in the session's
  list of outstanding challenges and is no longer in the list the call leaves. A second
  submission of the same payload, on the state the first one left, passes the solution
  check again and fails at the session lookup (the line logged is the lookup's) with the
  generic validation error, the very result of submitting this payload to any session
  that does not hold its identifier, as after expiry. Whatever the verifier answers the
  second time, the second submission does not succeed.
\<close>

theorem clean_captcha_single_use:
  assumes ok: "clean_captcha settings lib st captcha = (Inr r, st')"
  shows "(\<exists>c. challenge_of lib (captcha_payload captcha) = Some c \<and>
              c \<in> outstanding st \<and> c \<notin> outstanding st' \<and>
              (\<forall>st0. c \<notin> outstanding st0 \<longrightarrow>
                 clean_captcha settings lib st0 captcha =
                   (Inl validation_failed,
                    log_line ''Expired or replayed altcha solution'' st0))) \<and>
         clean_captcha settings lib st' captcha =
           (Inl validation_failed, log_line ''Expired or replayed altcha solution'' st') \<and>
         (\<forall>lib'. b64_json_loads lib' = b64_json_loads lib \<longrightarrow>
            (\<exists>e. fst (clean_captcha settings lib' st' captcha) = Inl e))"
proof -
  from clean_captcha_success [OF ok] obtain key d c where
    s: "USING_CAPTCHA settings" "ALTCHA_HMAC_KEY settings = Some key" "key \<noteq> []"
    and v: "verify_step lib (captcha_payload captcha) key st = (None, st)"
    and l: "b64_json_loads lib (captcha_payload captcha) = Inr (JObject d)"
    and c: "d ''challenge'' = Some c"
    and m: "c \<in> fst ` set (session_get_altcha_challenges st)"
    and st': "st' = st\<lparr>altcha_challenges :=
                     Some (filter (\<lambda>e. fst e \<noteq> c) (session_get_altcha_challenges st))\<rparr>"
    by blast
  from l c have ch: "challenge_of lib (captcha_payload captcha) = Some c"
    by (simp add: challenge_of_def)
  have gone: "c \<notin> outstanding st'"
    unfolding st' by (rule outstanding_after_removal)
  have v0: "verify_step lib (captcha_payload captcha) key st0 = (None, st0)" for st0
    using v by (rule verify_step_state_free)
  have unknown: "c \<notin> outstanding st0 \<Longrightarrow> clean_captcha settings lib st0 captcha =
      (Inl validation_failed, log_line ''Expired or replayed altcha solution'' st0)" for st0
    by (rule clean_captcha_not_outstanding [OF s v0 l c])
  have first: "\<exists>c. challenge_of lib (captcha_payload captcha) = Some c \<and>
              c \<in> outstanding st \<and> c \<notin> outstanding st' \<and>
              (\<forall>st0. c \<notin> outstanding st0 \<longrightarrow>
                 clean_captcha settings lib st0 captcha =
                   (Inl validation_failed,
                    log_line ''Expired or replayed altcha solution'' st0))"
    using ch m gone unknown by (auto simp: outstanding_def)
  have second: "clean_captcha settings lib st' captcha =
           (Inl validation_failed, log_line ''Expired or replayed altcha solution'' st')"
    using gone by (rule unknown)
  have third: "\<forall>lib'. b64_json_loads lib' = b64_json_loads lib \<longrightarrow>
            (\<exists>e. fst (clean_captcha settings lib' st' captcha) = Inl e)"
  proof (intro allI impI)
    fix lib' :: "'a captcha_lib"
    assume "b64_json_loads lib' = b64_json_loads lib"
    with l have "b64_json_loads lib' (captcha_payload captcha) = Inr (JObject d)" by simp
    then show "\<exists>e. fst (clean_captcha settings lib' st' captcha) = Inl e"
      using c gone by (rule clean_captcha_never_without_challenge)
  qed
  from first second third show ?thesis by blast
qed

theorem clean_captcha_single_use_witness:
  "clean_captcha \<lparr>USING_CAPTCHA = True, ALTCHA_HMAC_KEY = Some ''hmac-key''\<rparr> demo_lib
     \<lparr>altcha_challenges = Some [(''abc'', 17::nat), (''def'', 18)], logged = []\<rparr>
     (Some ''c29sdmVk'') =
     (Inr (JObject [''challenge'' \<mapsto> ''abc'']),
      \<lparr>altcha_challenges = Some [(''def'', 18)], logged = []\<rparr>) \<and>
   clean_captcha \<lparr>USING_CAPTCHA = True, ALTCHA_HMAC_KEY = Some ''hmac-key''\<rparr> demo_lib
     \<lparr>altcha_challenges = Some [(''def'', 18::nat)], logged = []\<rparr> (Some ''c29sdmVk'') =
     (Inl (ValidationError ''Validation failed, please try again.''),
      \<lparr>altcha_challenges = Some [(''def'', 18)],
       logged = [''Expired or replayed altcha solution'']\<rparr>)"
proof -
  have h: "clean_captcha \<lparr>USING_CAPTCHA = True, ALTCHA_HMAC_KEY = Some ''hmac-key''\<rparr> demo_lib
     \<lparr>altcha_challenges = Some [(''abc'', 17::nat), (''def'', 18)], logged = []\<rparr>
     (Some ''c29sdmVk'') =
     (Inr (JObject [''challenge'' \<mapsto> ''abc'']),
      \<lparr>altcha_challenges = Some [(''def'', 18)], logged = []\<rparr>)"
    by (simp add: clean_captcha_def captcha_payload_def verify_step_def demo_lib_def
          session_get_altcha_challenges_def)
       (simp add: image_iff)
  note replay = clean_captcha_single_use [OF h, THEN conjunct2, THEN conjunct1]
  have "log_line ''Expired or replayed altcha solution''
          \<lparr>altcha_challenges = Some [(''def'', 18::nat)], logged = []\<rparr> =
        \<lparr>altcha_challenges = Some [(''def'', 18)],
         logged = [''Expired or replayed altcha solution'']\<rparr>"
    by (simp add: log_line_def)
  with replay have "clean_captcha \<lparr>USING_CAPTCHA = True, ALTCHA_HMAC_KEY = Some ''hmac-key''\<rparr>
     demo_lib \<lparr>altcha_challenges = Some [(''def'', 18::nat)], logged = []\<rparr> (Some ''c29sdmVk'') =
     (Inl (ValidationError ''Validation failed, please try again.''),
      \<lparr>altcha_challenges = Some [(''def'', 18)],
       logged = [''Expired or replayed altcha solution'']\<rparr>)"
    unfolding validation_failed_def by simp
  with h show ?thesis by (rule conjI)
qed

section \<open>Claims about ZulipPasswordResetForm.save\<close>

lemma rate_limit_by_email_cases:
  "rate_limit_password_reset_form_by_email env addr st =
     (if email_counter_exceeded env addr st
      then Inl (RateLimitedError (snd (fst (rate_limit env (RateLimitedPasswordResetByEmail_key addr)
                 (password_reset_form_by_email_rules env) (limiter st)))))
      else Inr (),
      st\<lparr>limiter := snd (rate_limit env (RateLimitedPasswordResetByEmail_key addr)
                 (password_reset_form_by_email_rules env) (limiter st))\<rparr>)"
  by (simp add: rate_limit_password_reset_form_by_email_def email_counter_exceeded_def
        split: prod.splits)

lemma rate_limit_block_email:
  assumes "email_counter_exceeded env addr st"
  shows "\<exists>secs st1. rate_limit_block env request addr st = (Inl (RateLimitedError secs), st1) \<and>
           reset_emails st1 = reset_emails st"
  using assms
  by (simp add: rate_limit_block_def rate_limit_by_email_cases log_info_def)

lemma rate_limit_block_ip:
  assumes "\<not> email_counter_exceeded env addr st"
    and "ip_counter_exceeded env request addr st"
  shows "\<exists>secs st1. rate_limit_block env request addr st = (Inl (RateLimitedError secs), st1) \<and>
           reset_emails st1 = reset_emails st"
  using assms
  by (auto simp: rate_limit_block_def rate_limit_by_email_cases ip_counter_exceeded_def
        log_info_def split: prod.splits option.splits)

lemma rate_limit_block_pass:
  assumes "\<not> email_counter_exceeded env addr st"
    and "\<not> ip_counter_exceeded env request addr st"
  shows "\<exists>st1. rate_limit_block env request addr st = (Inr (), st1) \<and>
           reset_emails st1 = reset_emails st"
  using assms
  by (auto simp: rate_limit_block_def rate_limit_by_email_cases ip_counter_exceeded_def
        split: prod.splits option.splits)

lemma rate_limit_block_error:
  assumes "rate_limit_block env request addr st = (Inl e, st1)"
  shows "is_rate_limited_error e"
  using assms
  by (auto simp: rate_limit_block_def rate_limit_by_email_cases is_rate_limited_error_def
        split: prod.splits option.splits if_splits)

lemma save_early:
  assumes "get_realm env (subdomain_of_request request) = Some rlm"
    and "returns_early env rlm addr"
  shows "fst (save env addr (Some request) st) = Inr () \<and>
         reset_emails (snd (save env addr (Some request) st)) = reset_emails st \<and>
         limiter (snd (save env addr (Some request) st)) = limiter st"
  using assms by (auto simp: save_def returns_early_def log_info_def)

lemma save_late:
  assumes "get_realm env (subdomain_of_request request) = Some rlm"
    and "\<not> returns_early env rlm addr"
  shows "save env addr (Some request) st =
     (case (if RATE_LIMITING env then rate_limit_block env request addr st else (Inr (), st)) of
        (Inl e, st1) \<Rightarrow> (Inl e, st1)
      | (Inr u, st1) \<Rightarrow>
          (Inr (), do_send_password_reset_email addr rlm
                     (get_user_by_delivery_email env addr rlm) st1))"
  using assms by (simp add: save_def returns_early_def)

lemma save_limited:
  assumes "get_realm env (subdomain_of_request request) = Some rlm"
    and "\<not> returns_early env rlm addr"
    and "RATE_LIMITING env"
    and "email_counter_exceeded env addr st \<or> ip_counter_exceeded env request addr st"
  shows "(\<exists>secs. fst (save env addr (Some request) st) = Inl (RateLimitedError secs)) \<and>
         reset_emails (snd (save env addr (Some request) st)) = reset_emails st"
proof (cases "email_counter_exceeded env addr st")
  case True
  from rate_limit_block_email [OF True] obtain secs st1 where
    "rate_limit_block env request addr st = (Inl (RateLimitedError secs), st1)"
    "reset_emails st1 = reset_emails st" by blast
  then show ?thesis by (simp add: save_late [OF assms(1,2)] assms(3))
next
  case False
  with assms(4) have "ip_counter_exceeded env request addr st" by simp
  from rate_limit_block_ip [OF False this] obtain secs st1 where
    "rate_limit_block env request addr st = (Inl (RateLimitedError secs), st1)"
    "reset_emails st1 = reset_emails st" by blast
  then show ?thesis by (simp add: save_late [OF assms(1,2)] assms(3))
qed

lemma save_sends:
  assumes "get_realm env (subdomain_of_request request) = Some rlm"
    and "\<not> returns_early env rlm addr"
    and "RATE_LIMITING env \<Longrightarrow>
         \<not> email_counter_exceeded env addr st \<and> \<not> ip_counter_exceeded env request addr st"
  shows "fst (save env addr (Some request) st) = Inr () \<and>
         reset_emails (snd (save env addr (Some request) st)) =
           reset_emails st @ [(addr, rlm, get_user_by_delivery_email env addr rlm)]"
proof (cases "RATE_LIMITING env")
  case True
  with assms(3) have "\<not> email_counter_exceeded env addr st"
    "\<not> ip_counter_exceeded env request addr st" by simp_all
  from rate_limit_block_pass [OF this] obtain st1 where
    "rate_limit_block env request addr st = (Inr (), st1)"
    "reset_emails st1 = reset_emails st" by blast
  then show ?thesis
    by (simp add: save_late [OF assms(1,2)] True do_send_password_reset_email_def)
next
  case False
  then show ?thesis
    by (simp add: save_late [OF assms(1,2)] do_send_password_reset_email_def)
qed

lemma save_only_rate_limit_errors:
  assumes "get_realm env (subdomain_of_request request) = Some rlm"
    and "fst (save env addr (Some request) st) = Inl e"
  shows "is_rate_limited_error e"
proof (cases "returns_early env rlm addr")
  case True
  from save_early [OF assms(1) True, of st] assms(2) show ?thesis by simp
next
  case False
  show ?thesis
  proof (cases "RATE_LIMITING env")
    case True
    with assms(2) show ?thesis
      by (auto simp: save_late [OF assms(1) False] split: prod.splits sum.splits
            dest: rate_limit_block_error)
  next
    case no: False
    with assms(2) show ?thesis by (simp add: save_late [OF assms(1) False])
  qed
qed

text \<open>
  C4, as the code has it. For a request whose realm resolves, \<open>save\<close> raises nothing but
  \<open>RateLimitedError\<close>. When password authentication is disabled for the realm, the
  address is managed in LDAP or the realm is deactivated, it returns before any limiter
  is asked: success, no email, the counters untouched, exceeded or not. Past these three
  tests, with \<open>RATE_LIMITING\<close> on, an exceeded per-email or per-IP counter makes it raise
  \<open>RateLimitedError\<close> with the seconds to wait and no email is sent, also when no account
  matches the address. Otherwise it returns success after one call of
  \<open>do_send_password_reset_email\<close>, with user \<open>None\<close> when no account matches.
\<close>

theorem save_surfaces_only_rate_limits:
  assumes "get_realm env (subdomain_of_request request) = Some rlm"
  shows "(returns_early env rlm addr \<longrightarrow>
            fst (save env addr (Some request) st) = Inr () \<and>
            reset_emails (snd (save env addr (Some request) st)) = reset_emails st \<and>
            limiter (snd (save env addr (Some request) st)) = limiter st) \<and>
         (\<not> returns_early env rlm addr \<and> RATE_LIMITING env \<and>
            (email_counter_exceeded env addr st \<or> ip_counter_exceeded env request addr st) \<longrightarrow>
            (\<exists>secs. fst (save env addr (Some request) st) = Inl (RateLimitedError secs)) \<and>
            reset_emails (snd (save env addr (Some request) st)) = reset_emails st) \<and>
         (\<not> returns_early env rlm addr \<and>
            (RATE_LIMITING env \<longrightarrow> \<not> email_counter_exceeded env addr st \<and>
                                   \<not> ip_counter_exceeded env request addr st) \<longrightarrow>
            fst (save env addr (Some request) st) = Inr () \<and>
            reset_emails (snd (save env addr (Some request) st)) =
              reset_emails st @ [(addr, rlm, get_user_by_delivery_email env addr rlm)]) \<and>
         (\<forall>e. fst (save env addr (Some request) st) = Inl e \<longrightarrow> is_rate_limited_error e)"
proof (intro conjI impI allI)
  assume "returns_early env rlm addr"
  from save_early [OF assms this, of st]
  show "fst (save env addr (Some request) st) = Inr ()"
    and "reset_emails (snd (save env addr (Some request) st)) = reset_emails st"
    and "limiter (snd (save env addr (Some request) st)) = limiter st"
    by simp_all
next
  assume a: "\<not> returns_early env rlm addr \<and> RATE_LIMITING env \<and>
    (email_counter_exceeded env addr st \<or> ip_counter_exceeded env request addr st)"
  then have "(\<exists>secs. fst (save env addr (Some request) st) = Inl (RateLimitedError secs)) \<and>
         reset_emails (snd (save env addr (Some request) st)) = reset_emails st"
    by (intro save_limited [OF assms]) simp_all
  then show "\<exists>secs. fst (save env addr (Some request) st) = Inl (RateLimitedError secs)"
    and "reset_emails (snd (save env addr (Some request) st)) = reset_emails st"
    by simp_all
next
  assume a: "\<not> returns_early env rlm addr \<and>
    (RATE_LIMITING env \<longrightarrow> \<not> email_counter_exceeded env addr st \<and>
                           \<not> ip_counter_exceeded env request addr st)"
  then have "fst (save env addr (Some request) st) = Inr () \<and>
         reset_emails (snd (save env addr (Some request) st)) =
           reset_emails st @ [(addr, rlm, get_user_by_delivery_email env addr rlm)]"
    by (intro save_sends [OF assms]) simp_all
  then show "fst (save env addr (Some request) st) = Inr ()"
    and "reset_emails (snd (save env addr (Some request) st)) =
           reset_emails st @ [(addr, rlm, get_user_by_delivery_email env addr rlm)]"
    by simp_all
next
  fix e
  assume "fst (save env addr (Some request) st) = Inl e"
  with assms show "is_rate_limited_error e" by (rule save_only_rate_limit_errors)
qed

lemma demo_realm_resolves:
  "get_realm demo_reset_env (subdomain_of_request demo_request) = Some demo_realm"
  by (simp add: demo_reset_env_def demo_request_def)

lemma demo_not_early: "\<not> returns_early demo_reset_env demo_realm addr"
  by (simp add: returns_early_def demo_reset_env_def demo_realm_def)

lemma demo_email_counter:
  "email_counter_exceeded demo_reset_env addr \<lparr>limiter = n, reset_emails = [], info_log = []\<rparr>
     \<longleftrightarrow> 1 \<le> n"
  by (simp add: email_counter_exceeded_def demo_reset_env_def)

theorem save_surfaces_only_rate_limits_witness:
  "get_realm demo_reset_env (subdomain_of_request demo_request) = Some demo_realm \<and>
   \<not> returns_early demo_reset_env demo_realm ''iago@zulip.com'' \<and>
   RATE_LIMITING demo_reset_env \<and>
   email_counter_exceeded demo_reset_env ''iago@zulip.com''
     \<lparr>limiter = 1, reset_emails = [], info_log = []\<rparr> \<and>
   (\<exists>secs. fst (save demo_reset_env ''iago@zulip.com'' (Some demo_request)
                   \<lparr>limiter = 1, reset_emails = [], info_log = []\<rparr>) =
            Inl (RateLimitedError secs)) \<and>
   reset_emails (snd (save demo_reset_env ''iago@zulip.com'' (Some demo_request)
                        \<lparr>limiter = 1, reset_emails = [], info_log = []\<rparr>)) = []"
proof -
  have r: "RATE_LIMITING demo_reset_env" by (simp add: demo_reset_env_def)
  have x: "email_counter_exceeded demo_reset_env ''iago@zulip.com''
     \<lparr>limiter = 1, reset_emails = [], info_log = []\<rparr>"
    by (simp add: demo_email_counter)
  from save_surfaces_only_rate_limits [OF demo_realm_resolves, of "''iago@zulip.com''"
      "\<lparr>limiter = 1, reset_emails = [], info_log = []\<rparr>", THEN conjunct2, THEN conjunct1]
    demo_not_early r x demo_realm_resolves
  show ?thesis by simp
qed

theorem save_no_account_counterexample:
  "get_user_by_delivery_email demo_reset_env ''nobody@zulip.com'' demo_realm = None \<and>
   save demo_reset_env ''nobody@zulip.com'' (Some demo_request)
     \<lparr>limiter = 1, reset_emails = [], info_log = []\<rparr> =
   (Inl (RateLimitedError 30),
    \<lparr>limiter = 2, reset_emails = [],
     info_log = [''Too many password reset attempts for email nobody@zulip.com from 10.0.0.1'']\<rparr>)"
  by (simp add: save_def demo_reset_env_def demo_request_def demo_realm_def
        rate_limit_block_def rate_limit_password_reset_form_by_email_def log_info_def)

section \<open>Claims about deactivate_user_own_backend\<close>

lemma filter_singleton:
  assumes "distinct xs" and "set (filter P xs) = {x}"
  shows "filter P xs = [x]"
proof -
  from assms(1) have "distinct (filter P xs)" by simp
  then have "card (set (filter P xs)) = length (filter P xs)"
    by (rule distinct_card)
  with assms(2) have "length (filter P xs) = 1" by simp
  then obtain y where y: "filter P xs = [y]"
    by (cases "filter P xs") auto
  with assms(2) show ?thesis by simp
qed

lemma two_members_length:
  assumes "x \<in> set xs" and "y \<in> set xs" and "x \<noteq> y"
  shows "length xs \<noteq> 1"
proof
  assume "length xs = 1"
  then obtain z where "xs = [z]" by (cases xs) auto
  with assms show False by simp
qed

lemma sole_active_user_count:
  assumes "sole_active_user w caller"
  shows "length (filter (\<lambda>u. realm_id u = realm_id caller \<and> is_active u) (users w)) = 1"
proof -
  from assms have "filter (\<lambda>u. realm_id u = realm_id caller \<and> is_active u) (users w) = [caller]"
    unfolding sole_active_user_def by (intro filter_singleton) simp_all
  then show ?thesis by simp
qed

lemma only_owner_facts:
  assumes "only_human_owner_among_others w caller"
  shows "is_realm_owner caller" and "\<not> is_bot caller" and "check_last_owner w caller"
    and "length (filter (\<lambda>u. realm_id u = realm_id caller \<and> is_active u) (users w)) \<noteq> 1"
proof -
  from assms have owners: "set (get_human_owner_users w (realm caller)) = {caller}"
    and others: "filter (\<lambda>u. realm_id u = realm_id caller \<and> is_active u \<and>
                   role u \<noteq> ROLE_REALM_OWNER) (users w) \<noteq> []"
    by (simp_all add: only_human_owner_among_others_def)
  from owners have "caller \<in> set (get_human_owner_users w (realm caller))" by simp
  then have c: "caller \<in> set (users w)" "\<not> is_bot caller" "role caller = ROLE_REALM_OWNER"
    "is_active caller"
    by (simp_all add: get_human_owner_users_def)
  from c show "is_realm_owner caller" by (simp add: is_realm_owner_def)
  from c show "\<not> is_bot caller" by simp
  from owners c show "check_last_owner w caller"
    by (simp add: check_last_owner_def is_realm_owner_def)
  from others obtain u where u: "u \<in> set (users w)" "realm_id u = realm_id caller"
    "is_active u" "role u \<noteq> ROLE_REALM_OWNER"
    by (auto simp: filter_empty_conv)
  with c have ne: "caller \<noteq> u" by auto
  let ?act = "filter (\<lambda>u. realm_id u = realm_id caller \<and> is_active u) (users w)"
  from c have "caller \<in> set ?act" by simp
  moreover from u have "u \<in> set ?act" by simp
  ultimately show "length ?act \<noteq> 1" using ne by (rule two_members_length)
qed

text \<open>
  C2. When the caller is the sole active user of the realm, \<open>deactivate_user_own_backend\<close>
  raises \<open>CannotDeactivateLastUserError(is_last_owner=False)\<close>; when the caller is the
  realm's only human owner and another active user without the owner role exists, it
  raises \<open>CannotDeactivateLastUserError(is_last_owner=True)\<close>. In both cases the database
  is left as it was: nobody is deactivated.
\<close>

theorem deactivate_user_own_backend_last_user:
  "(sole_active_user w caller \<longrightarrow>
      deactivate_user_own_backend w caller = (Inl (CannotDeactivateLastUserError False), w)) \<and>
   (only_human_owner_among_others w caller \<longrightarrow>
      deactivate_user_own_backend w caller = (Inl (CannotDeactivateLastUserError True), w))"
proof (intro conjI impI)
  assume "sole_active_user w caller"
  then show "deactivate_user_own_backend w caller = (Inl (CannotDeactivateLastUserError False), w)"
    by (simp add: deactivate_user_own_backend_def sole_active_user_count)
next
  assume "only_human_owner_among_others w caller"
  from only_owner_facts [OF this]
  show "deactivate_user_own_backend w caller = (Inl (CannotDeactivateLastUserError True), w)"
    by (simp add: deactivate_user_own_backend_def)
qed

lemma demo_user_simps:
  "id_user (demo_user i n r) = i" "realm_id (demo_user i n r) = 2"
  "role (demo_user i n r) = r" "is_bot (demo_user i n r) = False"
  "is_active (demo_user i n r) = True" "realm (demo_user i n r) = demo_realm"
  by (simp_all add: demo_user_def realm_id_def demo_realm_def)

lemma demo_user_eq: "demo_user i n r = demo_user j m q \<longleftrightarrow> i = j \<and> n = m \<and> r = q"
  by (auto simp: demo_user_def)

theorem deactivate_user_own_backend_last_user_witness:
  "sole_active_user \<lparr>users = [demo_user 7 ''hamlet'' ROLE_MEMBER], rest = ()\<rparr>
     (demo_user 7 ''hamlet'' ROLE_MEMBER) \<and>
   deactivate_user_own_backend \<lparr>users = [demo_user 7 ''hamlet'' ROLE_MEMBER], rest = ()\<rparr>
     (demo_user 7 ''hamlet'' ROLE_MEMBER) =
     (Inl (CannotDeactivateLastUserError False),
      \<lparr>users = [demo_user 7 ''hamlet'' ROLE_MEMBER], rest = ()\<rparr>) \<and>
   only_human_owner_among_others
     \<lparr>users = [demo_user 5 ''desdemona'' ROLE_REALM_OWNER, demo_user 7 ''hamlet'' ROLE_MEMBER],
      rest = ()\<rparr> (demo_user 5 ''desdemona'' ROLE_REALM_OWNER) \<and>
   deactivate_user_own_backend
     \<lparr>users = [demo_user 5 ''desdemona'' ROLE_REALM_OWNER, demo_user 7 ''hamlet'' ROLE_MEMBER],
      rest = ()\<rparr> (demo_user 5 ''desdemona'' ROLE_REALM_OWNER) =
     (Inl (CannotDeactivateLastUserError True),
      \<lparr>users = [demo_user 5 ''desdemona'' ROLE_REALM_OWNER, demo_user 7 ''hamlet'' ROLE_MEMBER],
       rest = ()\<rparr>)"
proof -
  have a: "sole_active_user \<lparr>users = [demo_user 7 ''hamlet'' ROLE_MEMBER], rest = ()\<rparr>
     (demo_user 7 ''hamlet'' ROLE_MEMBER)"
    by (simp add: sole_active_user_def demo_user_simps)
  have b: "only_human_owner_among_others
     \<lparr>users = [demo_user 5 ''desdemona'' ROLE_REALM_OWNER, demo_user 7 ''hamlet'' ROLE_MEMBER],
      rest = ()\<rparr> (demo_user 5 ''desdemona'' ROLE_REALM_OWNER)"
    by (simp add: only_human_owner_among_others_def get_human_owner_users_def demo_user_simps
          demo_realm_def)
  from a b
    deactivate_user_own_backend_last_user
      [of "\<lparr>users = [demo_user 7 ''hamlet'' ROLE_MEMBER], rest = ()\<rparr>"
          "demo_user 7 ''hamlet'' ROLE_MEMBER"]
    deactivate_user_own_backend_last_user
      [of "\<lparr>users = [demo_user 5 ''desdemona'' ROLE_REALM_OWNER,
                     demo_user 7 ''hamlet'' ROLE_MEMBER], rest = ()\<rparr>"
          "demo_user 5 ''desdemona'' ROLE_REALM_OWNER"]
  show ?thesis by blast
qed

section \<open>Claims about role changes\<close>

lemma and_then_raise: "and_then (Inl e, s) f = (Inl e, s)"
  by (simp add: and_then_def)

lemma and_then_return: "and_then (Inr a, s) f = f a s"
  by (simp add: and_then_def)

lemma update_role_block_owner_required:
  assumes "owner_role_change_by_non_owner user_profile target role'"
  shows "update_role_block sh env user_profile target role' w =
           (Inl OrganizationOwnerRequiredError, w)"
proof -
  from assms obtain r where r: "role' = Some r" "r \<noteq> role target"
    "r = ROLE_REALM_OWNER \<or> role target = ROLE_REALM_OWNER" "\<not> is_realm_owner user_profile"
    by (cases role') (simp_all add: owner_role_change_by_non_owner_def)
  from r(2) have ne: "role target \<noteq> r" by blast
  from r(3) have mem: "ROLE_REALM_OWNER \<in> set [r, role target]" by auto
  show ?thesis
    unfolding update_role_block_def r(1)
    by (simp only: option.case ne mem r(4) if_False if_True not_False_eq_True simp_thms)
qed


lemma patch_role_block_owner_required:
  assumes "owner_role_change_by_non_owner user_profile bot' role'"
  shows "patch_role_block sh user_profile bot' role' w = (Inl OrganizationOwnerRequiredError, w)"
proof -
  from assms obtain r where r: "role' = Some r" "r \<noteq> role bot'"
    "r = ROLE_REALM_OWNER \<or> role bot' = ROLE_REALM_OWNER" "\<not> is_realm_owner user_profile"
    by (cases role') (simp_all add: owner_role_change_by_non_owner_def)
  from r(2) have ne: "role bot' \<noteq> r" by blast
  from r(3) have mem: "ROLE_REALM_OWNER \<in> set [r, role bot']" by auto
  show ?thesis
    unfolding patch_role_block_def r(1)
    by (simp only: option.case ne mem r(4) if_False if_True not_False_eq_True simp_thms)
qed

lemma update_user_backend_owner_required:
  assumes "owner_role_change_by_non_owner user_profile target role'"
    and "new_email = None \<or> (can_change_user_emails user_profile \<and> is_realm_admin user_profile)"
  shows "update_user_backend sh env user_profile target full_name' new_email profile_data role' w =
           (Inl OrganizationOwnerRequiredError, w)"
proof -
  from assms(2) have g: "\<not> (new_email \<noteq> None \<and>
      (\<not> can_change_user_emails user_profile \<or> \<not> is_realm_admin user_profile))"
    by blast
  show ?thesis
    unfolding update_user_backend_def
    by (simp only: g if_False update_role_block_owner_required [OF assms(1)] and_then_raise)
qed

lemma patch_bot_backend_owner_required:
  assumes "require_member_or_admin sh user_profile = None"
    and "access_bot_by_id env user_profile bot_id w = Inr bot'"
    and "patch_full_name_block env user_profile bot' (p_full_name p) w = (Inr bot1, w1)"
    and "owner_role_change_by_non_owner user_profile bot1 (p_role p)"
  shows "patch_bot_backend sh env request user_profile bot_id p w =
           (Inl OrganizationOwnerRequiredError, w1)"
  unfolding patch_bot_backend_def
  by (simp only: assms(1,2,3) option.case and_then_return and_then_raise
        patch_role_block_owner_required [OF assms(4)])

text \<open>
  C3, as the code has it. A role change to or from the owner role requested by a user
  who is no realm owner fails with \<open>OrganizationOwnerRequiredError\<close>, whatever the
  remaining parameters, once the checks placed before the role block have passed: in
  \<open>update_user_backend\<close> when no new email is requested or the acting user may change
  emails, in \<open>patch_bot_backend\<close> when the decorator and \<open>access_bot_by_id\<close> let the request
  through and the requested change of the bot's full name, if any, succeeded. Nothing is
  changed by the role block.
\<close>

theorem owner_role_change_requires_owner:
  "(owner_role_change_by_non_owner user_profile target role' \<and>
      (new_email = None \<or> (can_change_user_emails user_profile \<and> is_realm_admin user_profile)) \<longrightarrow>
      update_user_backend sh env user_profile target full_name' new_email profile_data role' w =
        (Inl OrganizationOwnerRequiredError, w)) \<and>
   (require_member_or_admin sh user_profile = None \<and>
      access_bot_by_id penv user_profile bot_id w = Inr bot' \<and>
      patch_full_name_block penv user_profile bot' (p_full_name p) w = (Inr bot1, w1) \<and>
      owner_role_change_by_non_owner user_profile bot1 (p_role p) \<longrightarrow>
      patch_bot_backend sh penv request user_profile bot_id p w =
        (Inl OrganizationOwnerRequiredError, w1))"
proof (intro conjI impI)
  assume "owner_role_change_by_non_owner user_profile target role' \<and>
      (new_email = None \<or> (can_change_user_emails user_profile \<and> is_realm_admin user_profile))"
  then show "update_user_backend sh env user_profile target full_name' new_email profile_data
      role' w = (Inl OrganizationOwnerRequiredError, w)"
    by (intro update_user_backend_owner_required) (erule conjunct1, erule conjunct2)
next
  assume a: "require_member_or_admin sh user_profile = None \<and>
      access_bot_by_id penv user_profile bot_id w = Inr bot' \<and>
      patch_full_name_block penv user_profile bot' (p_full_name p) w = (Inr bot1, w1) \<and>
      owner_role_change_by_non_owner user_profile bot1 (p_role p)"
  show "patch_bot_backend sh penv request user_profile bot_id p w =
        (Inl OrganizationOwnerRequiredError, w1)"
    by (rule patch_bot_backend_owner_required
          [OF a [THEN conjunct1] a [THEN conjunct2, THEN conjunct1]
              a [THEN conjunct2, THEN conjunct2, THEN conjunct1]
              a [THEN conjunct2, THEN conjunct2, THEN conjunct2]])
qed


lemma demo_iago_not_owner:
  "owner_role_change_by_non_owner (demo_user 6 ''iago'' ROLE_REALM_ADMINISTRATOR)
     (demo_user 7 ''hamlet'' ROLE_MEMBER) (Some ROLE_REALM_OWNER)"
  by (simp add: owner_role_change_by_non_owner_def is_realm_owner_def demo_user_simps)

lemma demo_iago_bot:
  "owner_role_change_by_non_owner (demo_user 6 ''iago'' ROLE_REALM_ADMINISTRATOR)
     (demo_bot\<lparr>full_name := ''Helper''\<rparr>) (Some ROLE_REALM_OWNER)"
  by (simp add: owner_role_change_by_non_owner_def is_realm_owner_def demo_user_simps
        demo_bot_def)

theorem owner_role_change_requires_owner_witness:
  "owner_role_change_by_non_owner (demo_user 6 ''iago'' ROLE_REALM_ADMINISTRATOR)
     (demo_user 7 ''hamlet'' ROLE_MEMBER) (Some ROLE_REALM_OWNER) \<and>
   update_user_backend demo_shared_env demo_update_env
     (demo_user 6 ''iago'' ROLE_REALM_ADMINISTRATOR) (demo_user 7 ''hamlet'' ROLE_MEMBER)
     (Some ''Prince Hamlet'') None None (Some ROLE_REALM_OWNER) demo_world =
     (Inl OrganizationOwnerRequiredError, demo_world) \<and>
   owner_role_change_by_non_owner (demo_user 6 ''iago'' ROLE_REALM_ADMINISTRATOR)
     (demo_bot\<lparr>full_name := ''Helper''\<rparr>) (Some ROLE_REALM_OWNER) \<and>
   patch_bot_backend demo_shared_env demo_patch_env \<lparr>FILES = [], QUERY_STRING = []\<rparr>
     (demo_user 6 ''iago'' ROLE_REALM_ADMINISTRATOR) 11
     (no_patch\<lparr>p_full_name := Some ''Helper'', p_role := Some ROLE_REALM_OWNER\<rparr>) demo_world =
     (Inl OrganizationOwnerRequiredError, demo_world)"
proof -
  let ?iago = "demo_user 6 ''iago'' ROLE_REALM_ADMINISTRATOR"
  let ?p = "no_patch\<lparr>p_full_name := Some ''Helper'', p_role := Some ROLE_REALM_OWNER\<rparr>"
  have a: "require_member_or_admin demo_shared_env ?iago = None"
    by (simp add: demo_shared_env_def)
  have b: "access_bot_by_id demo_patch_env ?iago 11 demo_world = Inr demo_bot"
    by (simp add: demo_patch_env_def)
  have n: "p_full_name ?p = Some ''Helper''" by simp
  have c: "patch_full_name_block demo_patch_env ?iago demo_bot (p_full_name ?p) demo_world =
             (Inr (demo_bot\<lparr>full_name := ''Helper''\<rparr>), demo_world)"
    unfolding n by (simp add: patch_full_name_block_def demo_patch_env_def)
  have e: "p_role ?p = Some ROLE_REALM_OWNER" by simp
  have d: "owner_role_change_by_non_owner ?iago (demo_bot\<lparr>full_name := ''Helper''\<rparr>) (p_role ?p)"
    unfolding e by (rule demo_iago_bot)
  have u: "update_user_backend demo_shared_env demo_update_env ?iago
     (demo_user 7 ''hamlet'' ROLE_MEMBER) (Some ''Prince Hamlet'') None None
     (Some ROLE_REALM_OWNER) demo_world = (Inl OrganizationOwnerRequiredError, demo_world)"
    by (rule owner_role_change_requires_owner [THEN conjunct1, rule_format])
       (simp add: demo_iago_not_owner)
  have v: "patch_bot_backend demo_shared_env demo_patch_env \<lparr>FILES = [], QUERY_STRING = []\<rparr>
     ?iago 11 ?p demo_world = (Inl OrganizationOwnerRequiredError, demo_world)"
    by (rule owner_role_change_requires_owner
          [THEN conjunct2, rule_format, OF conjI [OF a conjI [OF b conjI [OF c d]]]])
  from demo_iago_not_owner u demo_iago_bot v show ?thesis by (intro conjI)
qed

theorem owner_role_change_new_email_counterexample:
  "owner_role_change_by_non_owner (demo_user 6 ''iago'' ROLE_REALM_ADMINISTRATOR)
     (demo_user 7 ''hamlet'' ROLE_MEMBER) (Some ROLE_REALM_OWNER) \<and>
   update_user_backend demo_shared_env demo_update_env
     (demo_user 6 ''iago'' ROLE_REALM_ADMINISTRATOR) (demo_user 7 ''hamlet'' ROLE_MEMBER)
     None (Some ''hamlet@elsinore.dk'') None (Some ROLE_REALM_OWNER) demo_world =
     (Inl (JsonableError ''User not authorized to change user emails''), demo_world)"
proof -
  have "\<not> can_change_user_emails (demo_user 6 ''iago'' ROLE_REALM_ADMINISTRATOR)"
    by (simp add: demo_user_def)
  then have "update_user_backend demo_shared_env demo_update_env
     (demo_user 6 ''iago'' ROLE_REALM_ADMINISTRATOR) (demo_user 7 ''hamlet'' ROLE_MEMBER)
     None (Some ''hamlet@elsinore.dk'') None (Some ROLE_REALM_OWNER) demo_world =
     (Inl (JsonableError ''User not authorized to change user emails''), demo_world)"
    unfolding update_user_backend_def by simp
  with demo_iago_not_owner show ?thesis by (rule conjI)
qed

section \<open>Claims about add_bot_backend\<close>

lemma add_bot_backend_passes:
  assumes "passes_earlier_checks sh env user_profile p w n"
  shows "add_bot_backend sh env request user_profile p w =
           add_bot_create sh env request user_profile p n w"
  using assms
  unfolding passes_earlier_checks_def add_bot_backend_def
  by simp

lemma add_bot_backend_cases:
  "(\<exists>e. add_bot_backend sh env request user_profile p w = (Inl e, w)) \<or>
   (\<exists>n. passes_earlier_checks sh env user_profile p w n)"
  unfolding passes_earlier_checks_def add_bot_backend_def
  by (simp split: option.splits sum.splits)


lemma add_bot_create_success:
  assumes "add_bot_create sh env request user_profile p n w = (Inr resp, w')"
  shows "\<exists>src bot'. add_bot_avatar_source request = Inr src \<and>
           users w' = users w @ [bot'] \<and> avatar_source bot' = src \<and>
           delivery_email bot' = n_email n \<and> full_name bot' = n_full_name n \<and>
           is_active bot' \<and> realm bot' = realm user_profile"
  using assms
  unfolding add_bot_create_def do_create_user_def Let_def
  by (auto split: sum.splits option.splits prod.splits)

lemma foo_address: "Address_addr_spec ''foo-bot'' ''bots.example.com'' = Some ''foo-bot@bots.example.com''"
  by (simp add: Address_addr_spec_def DOT_ATOM_ENDS_def)

lemma add_bot_names_foo:
  assumes "check_short_name env (a_short_name_raw p) = Inr ''foo''"
    and "get_bot_domain env (realm user_profile) = Some ''bots.example.com''"
    and "add_bot_names env user_profile p w = Inr n"
  shows "n_email n = ''foo-bot@bots.example.com''"
  using assms(3)
  unfolding add_bot_names_def
  by (auto simp: assms(1,2) foo_address split: sum.splits)

lemma add_bot_backend_success:
  assumes "add_bot_backend sh env request user_profile p w = (Inr resp, w')"
  shows "\<exists>n. passes_earlier_checks sh env user_profile p w n \<and>
           add_bot_create sh env request user_profile p n w = (Inr resp, w')"
proof -
  from add_bot_backend_cases [of sh env request user_profile p w] assms
  obtain n where n: "passes_earlier_checks sh env user_profile p w n" by auto
  from add_bot_backend_passes [OF n, of request] assms
  have "add_bot_create sh env request user_profile p n w = (Inr resp, w')" by simp
  with n show ?thesis by blast
qed

lemma add_bot_backend_reaches:
  assumes "reaches_db_checks sh env user_profile p w n"
  shows "add_bot_backend sh env request user_profile p w =
     (case add_bot_db_checks w user_profile n of
        Some e \<Rightarrow> (Inl e, w)
      | None \<Rightarrow>
          (case add_bot_permission_checks sh env user_profile p of
             Some e \<Rightarrow> (Inl e, w)
           | None \<Rightarrow> add_bot_create sh env request user_profile p n w))"
  using assms
  unfolding reaches_db_checks_def add_bot_backend_def
  by simp





text \<open>
  C7, as the code has it. With short name \<open>foo\<close> on a realm whose bot domain is
  \<open>bots.example.com\<close>, the bot that \<open>add_bot_backend\<close> creates has the address
  \<open>foo-bot@bots.example.com\<close>, is active and bears the checked full name. A later request
  that produces a full name some active account of the realm already bears fails before
  any account is created: with the name-collision error when its address is free and
  the earlier tests pass, but with \<open>EmailAlreadyInUseError\<close> when its address is in use
  already, since the address is looked up first.
\<close>

theorem add_bot_backend_address_and_collision:
  "(check_short_name env (a_short_name_raw p) = Inr ''foo'' \<and>
      get_bot_domain env (realm user_profile) = Some ''bots.example.com'' \<and>
      add_bot_backend sh env request user_profile p w = (Inr resp, w') \<longrightarrow>
      (\<exists>bot' n. add_bot_names env user_profile p w = Inr n \<and>
         users w' = users w @ [bot'] \<and>
         delivery_email bot' = ''foo-bot@bots.example.com'' \<and>
         full_name bot' = n_full_name n \<and> is_active bot' \<and> realm bot' = realm user_profile)) \<and>
   (reaches_db_checks sh env user_profile p w n \<and>
      user_by_delivery_email w (n_email n) (realm user_profile) = None \<and>
      filter (\<lambda>u. realm_id u = realm_id user_profile \<and> full_name u = n_full_name n \<and> is_active u)
        (users w) \<noteq> [] \<longrightarrow>
      add_bot_backend sh env request user_profile p w =
        (Inl (JsonableError ''Name is already in use.''), w)) \<and>
   (reaches_db_checks sh env user_profile p w n \<and>
      user_by_delivery_email w (n_email n) (realm user_profile) \<noteq> None \<longrightarrow>
      add_bot_backend sh env request user_profile p w = (Inl EmailAlreadyInUseError, w))"
proof (intro conjI impI)
  assume a: "check_short_name env (a_short_name_raw p) = Inr ''foo'' \<and>
      get_bot_domain env (realm user_profile) = Some ''bots.example.com'' \<and>
      add_bot_backend sh env request user_profile p w = (Inr resp, w')"
  then obtain m where m: "passes_earlier_checks sh env user_profile p w m"
    "add_bot_create sh env request user_profile p m w = (Inr resp, w')"
    using add_bot_backend_success by blast
  from m(1) have names: "add_bot_names env user_profile p w = Inr m"
    by (simp add: passes_earlier_checks_def)
  from a names have "n_email m = ''foo-bot@bots.example.com''"
    by (intro add_bot_names_foo) simp_all
  with add_bot_create_success [OF m(2)] names
  show "\<exists>bot' n. add_bot_names env user_profile p w = Inr n \<and>
         users w' = users w @ [bot'] \<and>
         delivery_email bot' = ''foo-bot@bots.example.com'' \<and>
         full_name bot' = n_full_name n \<and> is_active bot' \<and> realm bot' = realm user_profile"
    by auto
next
  assume a: "reaches_db_checks sh env user_profile p w n \<and>
      user_by_delivery_email w (n_email n) (realm user_profile) = None \<and>
      filter (\<lambda>u. realm_id u = realm_id user_profile \<and> full_name u = n_full_name n \<and> is_active u)
        (users w) \<noteq> []"
  then have "add_bot_db_checks w user_profile n = Some (JsonableError ''Name is already in use.'')"
    by (simp add: add_bot_db_checks_def check_bot_name_available_def)
  moreover from a have "reaches_db_checks sh env user_profile p w n" by (rule conjunct1)
  ultimately show "add_bot_backend sh env request user_profile p w =
        (Inl (JsonableError ''Name is already in use.''), w)"
    by (simp only: add_bot_backend_reaches option.case)
next
  assume a: "reaches_db_checks sh env user_profile p w n \<and>
      user_by_delivery_email w (n_email n) (realm user_profile) \<noteq> None"
  then have "add_bot_db_checks w user_profile n = Some EmailAlreadyInUseError"
    by (auto simp: add_bot_db_checks_def)
  moreover from a have "reaches_db_checks sh env user_profile p w n" by (rule conjunct1)
  ultimately show "add_bot_backend sh env request user_profile p w =
      (Inl EmailAlreadyInUseError, w)"
    by (simp only: add_bot_backend_reaches option.case)
qed

lemma hamlet_simps:
  "realm (demo_user 7 ''hamlet'' ROLE_MEMBER) = demo_realm"
  "realm_id (demo_user 7 ''hamlet'' ROLE_MEMBER) = 2"
  "id_user (demo_user 7 ''hamlet'' ROLE_MEMBER) = 7"
  "full_name (demo_user 7 ''hamlet'' ROLE_MEMBER) = ''hamlet''"
  "delivery_email (demo_user 7 ''hamlet'' ROLE_MEMBER) = ''hamlet@zulip.com''"
  "is_active (demo_user 7 ''hamlet'' ROLE_MEMBER)"
  by (simp_all add: demo_user_def realm_id_def demo_realm_def)

lemma foo_bot_row_simps:
  "realm_id foo_bot_row = 2" "full_name foo_bot_row = ''Foo Bot''"
  "delivery_email foo_bot_row = ''foo-bot@bots.example.com''" "is_active foo_bot_row"
  "avatar_source foo_bot_row = AVATAR_FROM_GRAVATAR" "id_user foo_bot_row = 8"
  by (simp_all add: foo_bot_row_def realm_id_def demo_realm_def)

lemma demo_names_foo:
  "add_bot_names demo_add_env (demo_user 7 ''hamlet'' ROLE_MEMBER) foo_params w = Inr foo_names"
  by (simp add: add_bot_names_def demo_add_env_def foo_params_def foo_address foo_names_def
        service_name_or_def)

lemma demo_form_checks: "add_bot_form_checks demo_add_env foo_params n = None"
  by (simp add: add_bot_form_checks_def demo_add_env_def foo_params_def)

lemma demo_permission_checks:
  "add_bot_permission_checks demo_shared_env demo_add_env u foo_params = None"
  by (simp add: add_bot_permission_checks_def demo_add_env_def demo_shared_env_def)

lemma demo_db_checks_first:
  "add_bot_db_checks hamlet_world (demo_user 7 ''hamlet'' ROLE_MEMBER) foo_names = None"
  by (simp add: add_bot_db_checks_def user_by_delivery_email_def check_bot_name_available_def
        hamlet_world_def hamlet_simps foo_names_def demo_realm_def)

lemma demo_passes:
  "passes_earlier_checks demo_shared_env demo_add_env (demo_user 7 ''hamlet'' ROLE_MEMBER)
     foo_params hamlet_world foo_names"
  unfolding passes_earlier_checks_def
  by (simp add: demo_names_foo demo_form_checks demo_permission_checks demo_db_checks_first)
     (simp add: demo_shared_env_def)

lemma demo_create:
  "add_bot_create demo_shared_env demo_add_env no_files (demo_user 7 ''hamlet'' ROLE_MEMBER)
     foo_params foo_names hamlet_world = (Inr foo_response, foo_world)"
  by (simp add: add_bot_create_def add_bot_avatar_source_def no_files_def add_bot_stream_def
        add_bot_config_check_def foo_params_def demo_add_env_def do_create_user_def
        next_user_id_def hamlet_world_def hamlet_simps foo_names_def add_bot_after_create_def
        add_bot_json_result_def demo_shared_env_def foo_response_def foo_world_def
        foo_bot_row_def jstring_opt_def get_stream_name_def truthy_def Let_def)

lemma demo_first_creation:
  "add_bot_backend demo_shared_env demo_add_env no_files (demo_user 7 ''hamlet'' ROLE_MEMBER)
     foo_params hamlet_world = (Inr foo_response, foo_world)"
  by (simp only: add_bot_backend_passes [OF demo_passes] demo_create)

lemma demo_reaches_again:
  "reaches_db_checks demo_shared_env demo_add_env (demo_user 7 ''hamlet'' ROLE_MEMBER)
     foo_params foo_world foo_names"
  unfolding reaches_db_checks_def
  by (simp add: demo_names_foo demo_form_checks) (simp add: demo_shared_env_def)

lemma demo_address_taken:
  "user_by_delivery_email foo_world ''foo-bot@bots.example.com'' demo_realm = Some foo_bot_row"
  by (simp add: user_by_delivery_email_def foo_world_def hamlet_simps foo_bot_row_simps
        demo_realm_def)

lemma bar_address: "Address_addr_spec ''bar-bot'' ''bots.example.com'' = Some ''bar-bot@bots.example.com''"
  by (simp add: Address_addr_spec_def DOT_ATOM_ENDS_def)

lemma demo_names_bar:
  "add_bot_names demo_add_env (demo_user 7 ''hamlet'' ROLE_MEMBER) bar_params w = Inr bar_names"
  by (simp add: add_bot_names_def demo_add_env_def foo_params_def bar_params_def bar_address
        bar_names_def service_name_or_def)

lemma demo_reaches_bar:
  "reaches_db_checks demo_shared_env demo_add_env (demo_user 7 ''hamlet'' ROLE_MEMBER)
     bar_params foo_world bar_names"
  unfolding reaches_db_checks_def
  by (simp add: demo_names_bar)
     (simp add: demo_shared_env_def add_bot_form_checks_def demo_add_env_def bar_params_def
        foo_params_def)

lemma demo_bar_address_free:
  "user_by_delivery_email foo_world (n_email bar_names)
     (realm (demo_user 7 ''hamlet'' ROLE_MEMBER)) = None"
  by (simp add: user_by_delivery_email_def foo_world_def hamlet_simps foo_bot_row_simps
        bar_names_def)

lemma demo_bar_name_taken:
  "filter (\<lambda>u. realm_id u = realm_id (demo_user 7 ''hamlet'' ROLE_MEMBER) \<and>
               full_name u = n_full_name bar_names \<and> is_active u) (users foo_world) \<noteq> []"
  by (simp add: foo_world_def hamlet_simps foo_bot_row_simps bar_names_def)


theorem add_bot_backend_address_and_collision_witness:
  "check_short_name demo_add_env (a_short_name_raw foo_params) = Inr ''foo'' \<and>
   get_bot_domain demo_add_env (realm (demo_user 7 ''hamlet'' ROLE_MEMBER)) =
     Some ''bots.example.com'' \<and>
   add_bot_backend demo_shared_env demo_add_env no_files (demo_user 7 ''hamlet'' ROLE_MEMBER)
     foo_params hamlet_world = (Inr foo_response, foo_world) \<and>
   (\<exists>bot' n. add_bot_names demo_add_env (demo_user 7 ''hamlet'' ROLE_MEMBER) foo_params
               hamlet_world = Inr n \<and>
      users foo_world = users hamlet_world @ [bot'] \<and>
      delivery_email bot' = ''foo-bot@bots.example.com'' \<and>
      full_name bot' = n_full_name n \<and> is_active bot' \<and>
      realm bot' = realm (demo_user 7 ''hamlet'' ROLE_MEMBER)) \<and>
   reaches_db_checks demo_shared_env demo_add_env (demo_user 7 ''hamlet'' ROLE_MEMBER)
     bar_params foo_world bar_names \<and>
   user_by_delivery_email foo_world (n_email bar_names)
     (realm (demo_user 7 ''hamlet'' ROLE_MEMBER)) = None \<and>
   add_bot_backend demo_shared_env demo_add_env no_files (demo_user 7 ''hamlet'' ROLE_MEMBER)
     bar_params foo_world = (Inl (JsonableError ''Name is already in use.''), foo_world)"
proof -
  have s: "check_short_name demo_add_env (a_short_name_raw foo_params) = Inr ''foo''"
    by (simp add: demo_add_env_def foo_params_def)
  have d: "get_bot_domain demo_add_env (realm (demo_user 7 ''hamlet'' ROLE_MEMBER)) =
     Some ''bots.example.com''"
    by (simp add: demo_add_env_def)
  note t = add_bot_backend_address_and_collision
  have a: "\<exists>bot' n. add_bot_names demo_add_env (demo_user 7 ''hamlet'' ROLE_MEMBER) foo_params
               hamlet_world = Inr n \<and>
      users foo_world = users hamlet_world @ [bot'] \<and>
      delivery_email bot' = ''foo-bot@bots.example.com'' \<and>
      full_name bot' = n_full_name n \<and> is_active bot' \<and>
      realm bot' = realm (demo_user 7 ''hamlet'' ROLE_MEMBER)"
    by (rule t [THEN conjunct1, rule_format, OF conjI [OF s conjI [OF d demo_first_creation]]])
  have b: "add_bot_backend demo_shared_env demo_add_env no_files
     (demo_user 7 ''hamlet'' ROLE_MEMBER) bar_params foo_world =
     (Inl (JsonableError ''Name is already in use.''), foo_world)"
    by (rule t [THEN conjunct2, THEN conjunct1, rule_format,
          OF conjI [OF demo_reaches_bar conjI [OF demo_bar_address_free demo_bar_name_taken]]])
  from s d demo_first_creation a demo_reaches_bar demo_bar_address_free b
  show ?thesis by (intro conjI)
qed

theorem add_bot_backend_same_bot_again_counterexample:
  "add_bot_backend demo_shared_env demo_add_env no_files (demo_user 7 ''hamlet'' ROLE_MEMBER)
     foo_params hamlet_world = (Inr foo_response, foo_world) \<and>
   full_name (last (users foo_world)) = ''Foo Bot'' \<and>
   add_bot_names demo_add_env (demo_user 7 ''hamlet'' ROLE_MEMBER) foo_params foo_world =
     Inr foo_names \<and>
   n_full_name foo_names = ''Foo Bot'' \<and>
   add_bot_backend demo_shared_env demo_add_env no_files (demo_user 7 ''hamlet'' ROLE_MEMBER)
     foo_params foo_world = (Inl EmailAlreadyInUseError, foo_world)"
proof -
  have l: "full_name (last (users foo_world)) = ''Foo Bot''"
    by (simp add: foo_world_def foo_bot_row_simps)
  have n: "n_full_name foo_names = ''Foo Bot''" by (simp add: foo_names_def)
  have "add_bot_db_checks foo_world (demo_user 7 ''hamlet'' ROLE_MEMBER) foo_names =
          Some EmailAlreadyInUseError"
    by (simp add: add_bot_db_checks_def hamlet_simps foo_names_def demo_address_taken)
  then have "add_bot_backend demo_shared_env demo_add_env no_files
     (demo_user 7 ''hamlet'' ROLE_MEMBER) foo_params foo_world =
     (Inl EmailAlreadyInUseError, foo_world)"
    by (simp only: add_bot_backend_reaches [OF demo_reaches_again] option.case)
  with demo_first_creation l demo_names_foo n show ?thesis by (intro conjI)
qed


section \<open>Claims about the avatar endpoints\<close>

lemma avatar_by_id_url_answers:
  assumes "avatar_url_answers sh"
  shows "\<exists>url. avatar_by_id_url sh env maybe_user_profile user_id medium r w = Inr url"
proof -
  from assms have t: "\<And>u m. avatar_url sh u m \<noteq> None"
    by (simp add: avatar_url_answers_def)
  show ?thesis
    unfolding avatar_by_id_url_def
    by (auto split: option.splits simp: t)
qed

lemma avatar_by_id_refused:
  assumes "get_valid_realm_from_request env request = Inr r"
    and "\<not> allow_web_public_streams_access env r"
  shows "avatar_by_id sh env request None user_id medium w = (Inl MissingAuthenticationError, w)"
  using assms by (simp add: avatar_by_id_def)

lemma avatar_by_id_limited:
  assumes "get_valid_realm_from_request env request = Inr r"
    and "allow_web_public_streams_access env r"
    and "fst (spectator_rate_limit env r user_id medium (rest w)) = Some e"
  shows "fst (avatar_by_id sh env request None user_id medium w) = Inl e"
proof -
  obtain x where "spectator_rate_limit env r user_id medium (rest w) = (Some e, x)"
    using assms(3) by (cases "spectator_rate_limit env r user_id medium (rest w)") simp
  with assms(1,2) show ?thesis by (simp add: avatar_by_id_def)
qed

lemma avatar_by_id_granted:
  assumes "get_valid_realm_from_request env request = Inr r"
    and "allow_web_public_streams_access env r"
    and "fst (spectator_rate_limit env r user_id medium (rest w)) = None"
    and "avatar_url_answers sh"
  shows "is_redirect (fst (avatar_by_id sh env request None user_id medium w))"
proof -
  obtain x where x: "spectator_rate_limit env r user_id medium (rest w) = (None, x)"
    using assms(3) by (cases "spectator_rate_limit env r user_id medium (rest w)") simp
  from avatar_by_id_url_answers [OF assms(4)] obtain url where
    "avatar_by_id_url sh env None user_id medium r (w\<lparr>rest := x\<rparr>) = Inr url" by blast
  then show ?thesis
    using assms(1,2) x
    by (simp add: avatar_by_id_def is_redirect_def redirect_to_def)
qed

text \<open>
  C9, as the code has it. An unauthenticated request to \<open>avatar_by_email\<close> fails with
  \<open>MissingAuthenticationError\<close> whatever the realm's web-public flag says: spectators may
  use the id form only. An unauthenticated request to \<open>avatar_by_id\<close>, its realm
  resolved, fails with \<open>MissingAuthenticationError\<close> when the flag refuses; when the flag
  permits, it is answered by a redirect to the computed URL unless the spectator rate
  limiter raises, and then the limiter's error is the result.
\<close>

theorem spectator_avatar_access:
  "avatar_by_email sh env request None email' medium w = (Inl MissingAuthenticationError, w) \<and>
   (get_valid_realm_from_request env request = Inr r \<and> \<not> allow_web_public_streams_access env r \<longrightarrow>
      avatar_by_id sh env request None user_id medium w = (Inl MissingAuthenticationError, w)) \<and>
   (get_valid_realm_from_request env request = Inr r \<and> allow_web_public_streams_access env r \<and>
      fst (spectator_rate_limit env r user_id medium (rest w)) = None \<and> avatar_url_answers sh \<longrightarrow>
      is_redirect (fst (avatar_by_id sh env request None user_id medium w))) \<and>
   (get_valid_realm_from_request env request = Inr r \<and> allow_web_public_streams_access env r \<and>
      fst (spectator_rate_limit env r user_id medium (rest w)) = Some e \<longrightarrow>
      fst (avatar_by_id sh env request None user_id medium w) = Inl e)"
proof (intro conjI impI)
  show "avatar_by_email sh env request None email' medium w = (Inl MissingAuthenticationError, w)"
    by (simp add: avatar_by_email_def)
next
  assume a: "get_valid_realm_from_request env request = Inr r \<and>
      \<not> allow_web_public_streams_access env r"
  show "avatar_by_id sh env request None user_id medium w = (Inl MissingAuthenticationError, w)"
    by (rule avatar_by_id_refused [OF a [THEN conjunct1] a [THEN conjunct2]])
next
  assume a: "get_valid_realm_from_request env request = Inr r \<and> allow_web_public_streams_access env r \<and>
      fst (spectator_rate_limit env r user_id medium (rest w)) = None \<and> avatar_url_answers sh"
  show "is_redirect (fst (avatar_by_id sh env request None user_id medium w))"
    by (rule avatar_by_id_granted
          [OF a [THEN conjunct1] a [THEN conjunct2, THEN conjunct1]
              a [THEN conjunct2, THEN conjunct2, THEN conjunct1]
              a [THEN conjunct2, THEN conjunct2, THEN conjunct2]])
next
  assume a: "get_valid_realm_from_request env request = Inr r \<and> allow_web_public_streams_access env r \<and>
      fst (spectator_rate_limit env r user_id medium (rest w)) = Some e"
  show "fst (avatar_by_id sh env request None user_id medium w) = Inl e"
    by (rule avatar_by_id_limited
          [OF a [THEN conjunct1] a [THEN conjunct2, THEN conjunct1]
              a [THEN conjunct2, THEN conjunct2]])
qed

lemma demo_realm_public:
  "get_valid_realm_from_request demo_avatar_env no_files = Inr demo_realm"
  "allow_web_public_streams_access demo_avatar_env demo_realm"
  by (simp_all add: demo_avatar_env_def demo_realm_def)

lemma demo_limit_passes:
  "fst (spectator_rate_limit demo_avatar_env demo_realm 7 False (rest hamlet_world)) = None"
  by (simp add: spectator_rate_limit_def demo_avatar_env_def hamlet_world_def)

lemma demo_avatar_url_answers: "avatar_url_answers demo_shared_env"
  by (simp add: avatar_url_answers_def demo_shared_env_def)

theorem spectator_avatar_access_witness:
  "get_valid_realm_from_request demo_avatar_env no_files = Inr demo_realm \<and>
   allow_web_public_streams_access demo_avatar_env demo_realm \<and>
   fst (spectator_rate_limit demo_avatar_env demo_realm 7 False (rest hamlet_world)) = None \<and>
   avatar_url_answers demo_shared_env \<and>
   is_redirect (fst (avatar_by_id demo_shared_env demo_avatar_env no_files None 7 False
                       hamlet_world)) \<and>
   avatar_by_id demo_shared_env demo_avatar_env no_files None 7 False hamlet_world =
     (Inr (redirect ''/avatar''), hamlet_world\<lparr>rest := 1\<rparr>)"
proof -
  have g: "is_redirect (fst (avatar_by_id demo_shared_env demo_avatar_env no_files None 7 False
                       hamlet_world))"
    by (rule spectator_avatar_access
          [THEN conjunct2, THEN conjunct2, THEN conjunct1, rule_format,
           OF conjI [OF demo_realm_public(1) conjI [OF demo_realm_public(2)
                conjI [OF demo_limit_passes demo_avatar_url_answers]]]])
  have v: "avatar_by_id demo_shared_env demo_avatar_env no_files None 7 False hamlet_world =
     (Inr (redirect ''/avatar''), hamlet_world\<lparr>rest := 1\<rparr>)"
    by (simp add: avatar_by_id_def spectator_rate_limit_def avatar_by_id_url_def
          redirect_to_def no_files_def demo_avatar_env_def hamlet_world_def
          demo_shared_env_def demo_user_def realm_id_def demo_realm_def)
  from demo_realm_public demo_limit_passes demo_avatar_url_answers g v
  show ?thesis by (intro conjI)
qed

theorem spectator_avatar_by_email_counterexample:
  "get_valid_realm_from_request demo_avatar_env no_files = Inr demo_realm \<and>
   allow_web_public_streams_access demo_avatar_env demo_realm \<and>
   avatar_by_email demo_shared_env demo_avatar_env no_files None ''hamlet@zulip.com'' False
     hamlet_world = (Inl MissingAuthenticationError, hamlet_world)"
  by (simp add: demo_realm_public avatar_by_email_def)

end
